theory Spec2Isabelle
  imports Complex_Main
begin

section \<open>Stellar Life Simulator: the simulation engine of app.js\<close>

text \<open>
  The engine of \<^verbatim>\<open>src/app.js\<close> is embedded function by function (the second script
  among the sources is an earlier revision of it, without the collapse animation, the
  supernova handshake and the timeline scrubbing). A JavaScript number is
  modelled as a real: \<^verbatim>\<open>Math.pow(x, y)\<close> is \<open>x powr y\<close> (they agree for a positive base,
  the only one the engine passes), \<^verbatim>\<open>Math.cbrt\<close> is \<open>root 3\<close>, \<^verbatim>\<open>Math.log\<close> is \<open>ln\<close>,
  \<^verbatim>\<open>Math.max\<close> and \<^verbatim>\<open>Math.min\<close> are \<open>max\<close> and \<open>min\<close>. Rounding of IEEE doubles, NaN
  and the infinities are outside the model. The arithmetic of JavaScript never throws, so
  no function of the engine has an error branch. Mutation of the module-level \<^verbatim>\<open>state\<close>
  object and of the star objects it holds is explicit state passing.
\<close>

subsection \<open>Units, constants and utilities\<close>

definition YEAR :: real where
  "YEAR = 1"

definition MYR :: real where
  "MYR = 1000000 * YEAR"

definition GYR :: real where
  "GYR = 1000000000 * YEAR"

definition WD_MAX :: real where
  "WD_MAX = 8"

definition NS_MAX :: real where
  "NS_MAX = 20"

text \<open>\<^verbatim>\<open>function clamp(v, min, max) { return Math.max(min, Math.min(max, v)); }\<close>\<close>

definition clamp :: "real \<Rightarrow> real \<Rightarrow> real \<Rightarrow> real" where
  "clamp v lo hi = max lo (min hi v)"

subsection \<open>Stellar relations\<close>

definition msLifetimeYears :: "real \<Rightarrow> real" where
  "msLifetimeYears mass = 10 * GYR * (mass powr (-2.5))"

definition luminosityLsun :: "real \<Rightarrow> real" where
  "luminosityLsun mass = clamp (mass powr 3.5) 0.001 1000000"

definition radiusRsun :: "real \<Rightarrow> real" where
  "radiusRsun mass = clamp (mass powr 0.8) 0.05 2000"

definition temperatureK :: "real \<Rightarrow> real \<Rightarrow> real" where
  "temperatureK l r =
     (let ratio = (l / (r powr 2)) powr 0.25
      in clamp (5772 * ratio) 2000 60000)"

definition fateForMass :: "real \<Rightarrow> string" where
  "fateForMass mass =
     (if mass < WD_MAX then ''White Dwarf''
      else if mass < NS_MAX then ''Neutron Star''
      else ''Black Hole'')"

subsection \<open>The star object\<close>

record star =
  massInitial :: real
  massCurrent :: real
  age :: real
  tProtostar :: real
  tMS :: real
  tGiant :: real
  tTotal :: real
  ended :: bool
  fate :: string
  collapseAnimating :: bool
  collapseProgress :: real
  justEnded :: bool
  hadSupernova :: bool

definition makeStar :: "real \<Rightarrow> star" where
  "makeStar initialMass =
     (let mass = clamp initialMass 0.1 50;
          tMS' = msLifetimeYears mass;
          tProtostar' = tMS' * 0.01;
          tGiant' = tMS' * 0.1;
          total = tProtostar' + tMS' + tGiant'
      in \<lparr> massInitial = mass,
           massCurrent = mass,
           age = 0,
           tProtostar = tProtostar',
           tMS = tMS',
           tGiant = tGiant',
           tTotal = total,
           ended = False,
           fate = fateForMass mass,
           collapseAnimating = False,
           collapseProgress = 0,
           justEnded = False,
           hadSupernova = False \<rparr>)"

definition stageForStar :: "star \<Rightarrow> string" where
  "stageForStar s =
     (if ended s then fate s
      else if age s < tProtostar s then ''Protostar''
      else if age s < tProtostar s + tMS s then ''Main Sequence''
      else if age s < tTotal s then (if massInitial s \<ge> 8 then ''Supergiant'' else ''Giant'')
      else fate s)"

subsection \<open>Binary helpers\<close>

definition rocheLobeRadiusAU :: "real \<Rightarrow> real \<Rightarrow> real \<Rightarrow> real" where
  "rocheLobeRadiusAU mDonor mAccretor sepAU =
     (let q = clamp (mDonor / mAccretor) 0.001 1000;
          q13 = root 3 q;
          q23 = q13 * q13;
          rlOverA = 0.49 * q23 / (0.6 * q23 + ln (1 + q13))
      in rlOverA * sepAU)"

definition stellarRadiusAU :: "real \<Rightarrow> real" where
  "stellarRadiusAU Rsun = Rsun / 215"

text \<open>
  \<^verbatim>\<open>resetStarTimes\<close> is the closure inside \<^verbatim>\<open>transferMass\<close>; the four assignments run in
  order, so \<open>tTotal\<close> is the sum of the three fields just written.
\<close>

definition resetStarTimes :: "star \<Rightarrow> star" where
  "resetStarTimes s =
     (let tMS' = msLifetimeYears (massCurrent s);
          s1 = s\<lparr>tProtostar := tMS' * 0.01\<rparr>;
          s2 = s1\<lparr>tMS := tMS'\<rparr>;
          s3 = s2\<lparr>tGiant := tMS' * 0.1\<rparr>
      in s3\<lparr>tTotal := tProtostar s3 + tMS s3 + tGiant s3\<rparr>)"

text \<open>
  \<^verbatim>\<open>transferMass(donor, accretor, dm)\<close> mutates two distinct star objects (the callers
  pass \<^verbatim>\<open>state.star1\<close> and \<^verbatim>\<open>state.star2\<close>, which are never the same object); the model
  returns the pair (donor, accretor) after the call.
\<close>

definition transferMass :: "star \<Rightarrow> star \<Rightarrow> real \<Rightarrow> star \<times> star" where
  "transferMass donor accretor dm =
     (let maxTransfer = min dm (massCurrent donor - 0.1)
      in if maxTransfer \<le> 0 then (donor, accretor)
         else
           (let d1 = donor\<lparr>massCurrent := massCurrent donor - maxTransfer\<rparr>;
                a1 = accretor\<lparr>massCurrent := massCurrent accretor + maxTransfer\<rparr>;
                d2 = d1\<lparr>fate := fateForMass (massCurrent d1)\<rparr>;
                a2 = a1\<lparr>fate := fateForMass (massCurrent a1)\<rparr>
            in (resetStarTimes d2, resetStarTimes a2)))"

subsection \<open>The simulation state\<close>

text \<open>
  An entry of \<^verbatim>\<open>state.explosions\<close>. Its world position and colour are read by the
  canvas only and are left out.
\<close>

record explosion =
  ageMs :: real
  durationMs :: real
  alive :: bool

text \<open>
  The module-level \<^verbatim>\<open>state\<close> object, without the camera and the background stars,
  together with the module-level variable \<^verbatim>\<open>lastTs\<close> of the simulation loop.
\<close>

record state =
  running :: bool
  t :: real
  speed :: real
  star1 :: star
  star2 :: star
  binary :: bool
  separationAU :: real
  transferRatePerYear :: real
  explosions :: "explosion list"
  lastTs :: real

definition initialState :: state where
  "initialState =
     \<lparr> running = False,
       t = 0,
       speed = 10,
       star1 = makeStar 1.0,
       star2 = makeStar 0.8,
       binary = False,
       separationAU = 0.5,
       transferRatePerYear = 0.01 / MYR,
       explosions = [],
       lastTs = 0 \<rparr>"

subsection \<open>Mass transfer by Roche-lobe overflow\<close>

definition doMassTransfer :: "real \<Rightarrow> state \<Rightarrow> state" where
  "doMassTransfer dtYears st =
     (if \<not> binary st then st
      else
        (let s1 = star1 st;
             s2 = star2 st;
             R1AU = stellarRadiusAU (radiusRsun (massCurrent s1));
             R2AU = stellarRadiusAU (radiusRsun (massCurrent s2));
             RL1 = rocheLobeRadiusAU (massCurrent s1) (massCurrent s2) (separationAU st);
             RL2 = rocheLobeRadiusAU (massCurrent s2) (massCurrent s1) (separationAU st);
             overfill1 = (R1AU > RL1);
             overfill2 = (R2AU > RL2);
             rate = transferRatePerYear st
         in if \<not> ended s1 \<and> \<not> ended s2 then
              (if overfill1 \<and> \<not> overfill2 then
                 (let dm = rate * dtYears;
                      (d, a) = transferMass s1 s2 dm
                  in st\<lparr>star1 := d, star2 := a\<rparr>)
               else if overfill2 \<and> \<not> overfill1 then
                 (let dm = rate * dtYears;
                      (d, a) = transferMass s2 s1 dm
                  in st\<lparr>star1 := a, star2 := d\<rparr>)
               else st)
            else st))"

subsection \<open>The draw pass, as far as it writes to the stars\<close>

text \<open>
  \<^verbatim>\<open>drawStarAtWorld\<close> paints the star and then runs the supernova handshake, its only
  write to the simulation: \<^verbatim>\<open>startSupernova\<close> pushes an explosion of 2500 ms.
\<close>

definition startSupernova :: "explosion list \<Rightarrow> explosion list" where
  "startSupernova exs = exs @ [\<lparr> ageMs = 0, durationMs = 2500, alive = True \<rparr>]"

definition drawStarAtWorld :: "star \<Rightarrow> explosion list \<Rightarrow> star \<times> explosion list" where
  "drawStarAtWorld s exs =
     (if justEnded s then
        (if massInitial s \<ge> 8 \<and> \<not> hadSupernova s
         then (s\<lparr>hadSupernova := True, justEnded := False\<rparr>, startSupernova exs)
         else (s\<lparr>justEnded := False\<rparr>, exs))
      else (s, exs))"

definition drawStars :: "state \<Rightarrow> state" where
  "drawStars st =
     (if \<not> binary st then
        (let (p, exs) = drawStarAtWorld (star1 st) (explosions st)
         in st\<lparr>star1 := p, explosions := exs\<rparr>)
      else
        (let (p, exs1) = drawStarAtWorld (star1 st) (explosions st);
             (s, exs2) = drawStarAtWorld (star2 st) exs1
         in st\<lparr>star1 := p, star2 := s, explosions := exs2\<rparr>))"

definition updateExplosions :: "real \<Rightarrow> state \<Rightarrow> state" where
  "updateExplosions dtMs st =
     (let aged = map (\<lambda>ex. let ex1 = ex\<lparr>ageMs := ageMs ex + dtMs\<rparr>
                           in if ageMs ex1 \<ge> durationMs ex1 then ex1\<lparr>alive := False\<rparr> else ex1)
                     (explosions st)
      in st\<lparr>explosions := filter alive aged\<rparr>)"

text \<open>
  \<^verbatim>\<open>updateUI\<close> writes the readouts to the page and calls \<^verbatim>\<open>drawStars\<close>; only the
  latter changes the simulation state.
\<close>

definition updateUI :: "state \<Rightarrow> state" where
  "updateUI st = drawStars st"

subsection \<open>Time integration\<close>

text \<open>The body of the loop over the active stars in \<^verbatim>\<open>advanceTime\<close>.\<close>

definition advanceStar :: "real \<Rightarrow> real \<Rightarrow> star \<Rightarrow> star" where
  "advanceStar dtYears dtMs s =
     (if \<not> ended s then
        (let s1 = s\<lparr>age := age s + dtYears\<rparr>
         in if age s1 \<ge> tTotal s1
            then s1\<lparr>age := tTotal s1, ended := True, collapseAnimating := True,
                    collapseProgress := 0, justEnded := True\<rparr>
            else s1)
      else if collapseAnimating s then
        (let s1 = s\<lparr>collapseProgress := collapseProgress s + dtMs / 2000\<rparr>
         in if collapseProgress s1 \<ge> 1
            then s1\<lparr>collapseProgress := 1, collapseAnimating := False\<rparr>
            else s1)
      else s)"

text \<open>
  The loop itself: \<^verbatim>\<open>stars = [state.star1, ...(state.binary ? [state.star2] : [])]\<close>.
\<close>

definition advanceStars :: "real \<Rightarrow> real \<Rightarrow> state \<Rightarrow> state" where
  "advanceStars dtYears dtMs st =
     (let st1 = st\<lparr>star1 := advanceStar dtYears dtMs (star1 st)\<rparr>
      in if binary st1 then st1\<lparr>star2 := advanceStar dtYears dtMs (star2 st1)\<rparr> else st1)"

definition advanceTime :: "real \<Rightarrow> real \<Rightarrow> state \<Rightarrow> state" where
  "advanceTime dtYears dtMs st =
     updateUI
       (updateExplosions dtMs
          (doMassTransfer dtYears
             (advanceStars dtYears dtMs (st\<lparr>t := t st + dtYears\<rparr>))))"

text \<open>
  One frame of the simulation loop. \<open>ts\<close> is the frame's timestamp and \<open>autoScale\<close> the
  state of the checkbox \<^verbatim>\<open>els.autoScale.checked\<close>; \<^verbatim>\<open>!lastTs\<close> holds when \<open>lastTs\<close> is 0.
  Scheduling the next frame is left to the caller.
\<close>

definition tick :: "real \<Rightarrow> bool \<Rightarrow> state \<Rightarrow> state" where
  "tick ts autoScale st =
     (if \<not> running st then st
      else
        (let st1 = (if lastTs st = 0 then st\<lparr>lastTs := ts\<rparr> else st);
             dtMs = ts - lastTs st1;
             st2 = st1\<lparr>lastTs := ts\<rparr>;
             s1 = star1 st2;
             lifetime = tTotal s1;
             dtYears =
               (if autoScale then
                  (let secondsForLifetime = 60;
                       yearsPerSecond = lifetime / secondsForLifetime
                   in (dtMs / 1000) * yearsPerSecond)
                else (dtMs / 1000) * speed st2 * 10000000)
         in advanceTime dtYears dtMs st2))"

definition setSimulationAge :: "real \<Rightarrow> state \<Rightarrow> state" where
  "setSimulationAge ageYears st =
     (let st1 = st\<lparr>star1 := (star1 st)\<lparr>age := clamp ageYears 0 (tTotal (star1 st))\<rparr>\<rparr>;
          st2 = (if binary st1
                 then st1\<lparr>star2 := (star2 st1)\<lparr>age := clamp ageYears 0 (tTotal (star2 st1))\<rparr>\<rparr>
                 else st1)
      in updateUI st2)"

subsection \<open>The entry points of the controls\<close>

text \<open>
  The handlers that \<^verbatim>\<open>wireEvents\<close> installs on the separation and transfer-rate controls;
  \<open>x\<close> is the parsed value of the control.
\<close>

definition applySep :: "real \<Rightarrow> state \<Rightarrow> state" where
  "applySep x st = updateUI (st\<lparr>separationAU := clamp x 0.01 10\<rparr>)"

definition applyRate :: "real \<Rightarrow> state \<Rightarrow> state" where
  "applyRate x st = st\<lparr>transferRatePerYear := clamp x 0 0.2 / MYR\<rparr>"

subsection \<open>Predicates of the specification\<close>

text \<open>
  The relation between the four phase durations of a star that the data model of the
  specification states as an invariant.
\<close>

definition phaseTimesOk :: "star \<Rightarrow> bool" where
  "phaseTimesOk s \<longleftrightarrow>
     tTotal s = tProtostar s + tMS s + tGiant s \<and>
     tProtostar s = 0.01 * tMS s \<and>
     tGiant s = 0.10 * tMS s"

text \<open>
  A star overfills its Roche lobe when its physical radius, in AU and from its current
  mass, exceeds its Roche-lobe radius, the star being the donor and the other star the
  accretor. These are the tests \<^verbatim>\<open>overfill1\<close> and \<^verbatim>\<open>overfill2\<close> of \<open>doMassTransfer\<close>.
\<close>

definition overfills :: "star \<Rightarrow> star \<Rightarrow> real \<Rightarrow> bool" where
  "overfills s other sepAU \<longleftrightarrow>
     stellarRadiusAU (radiusRsun (massCurrent s))
       > rocheLobeRadiusAU (massCurrent s) (massCurrent other) sepAU"

text \<open>
  The state of a step after ageing and mass transfer, at the point where \<open>advanceTime\<close>
  goes on to the explosions and the draw pass.
\<close>

definition integrated :: "real \<Rightarrow> real \<Rightarrow> state \<Rightarrow> state" where
  "integrated dtYears dtMs st =
     doMassTransfer dtYears (advanceStars dtYears dtMs (st\<lparr>t := t st + dtYears\<rparr>))"

text \<open>
  The domain the clamps keep the simulation in: both current masses positive, the
  separation in [0.01, 10] AU and the transfer rate in [0, 0.2] solar masses per million
  years.
\<close>

definition inDomain :: "state \<Rightarrow> bool" where
  "inDomain st \<longleftrightarrow>
     0 < massCurrent (star1 st) \<and> 0 < massCurrent (star2 st) \<and>
     0.01 \<le> separationAU st \<and> separationAU st \<le> 10 \<and>
     0 \<le> transferRatePerYear st \<and> transferRatePerYear st \<le> 0.2 / MYR"

text \<open>
  The total lifetime of a star is the one computed from its current mass, by the
  expressions of \<^verbatim>\<open>makeStar\<close> and \<^verbatim>\<open>resetStarTimes\<close>.
\<close>

definition tTotalFromMass :: "star \<Rightarrow> bool" where
  "tTotalFromMass s \<longleftrightarrow>
     tTotal s = msLifetimeYears (massCurrent s) * 0.01 + msLifetimeYears (massCurrent s)
       + msLifetimeYears (massCurrent s) * 0.1"

text \<open>
  The invariant of claim C7 for one star: a star whose age has reached its total lifetime
  is marked as ended.
\<close>

definition endedWhenDue :: "star \<Rightarrow> bool" where
  "endedWhenDue s \<longleftrightarrow> (tTotal s \<le> age s \<longrightarrow> ended s)"

subsection \<open>The donor floor in binary64 arithmetic\<close>

text \<open>
  The two subtractions of \<^verbatim>\<open>transferMass\<close> that keep the donor above 0.1 are sensitive
  to the rounding of IEEE binary64 numbers, which the real numbers of the model above
  leave out. They are modelled here with the rounding written out. \<open>rne\<close> rounds a real to
  the nearest integer, ties to even; \<open>binary64\<close> rounds a real to the nearest number with
  a significand of 53 bits (for the normal range: no overflow, no subnormal numbers).
\<close>

definition rne :: "real \<Rightarrow> int" where
  "rne x =
     (let f = \<lfloor>x\<rfloor>; d = x - of_int f
      in if d < 1/2 then f
         else if 1/2 < d then f + 1
         else if even f then f else f + 1)"

definition binary64 :: "real \<Rightarrow> real" where
  "binary64 x =
     (if x = 0 then 0
      else
        (let e = \<lfloor>log 2 \<bar>x\<bar>\<rfloor>;
             ulp = 2 powi (e - 52)
         in of_int (rne (x / ulp)) * ulp))"

text \<open>
  \<^verbatim>\<open>const maxTransfer = Math.min(dm, donor.massCurrent - 0.1);\<close> where the literal
  \<^verbatim>\<open>0.1\<close> is the binary64 number nearest to one tenth.
\<close>

definition maxTransfer64 :: "real \<Rightarrow> real \<Rightarrow> real" where
  "maxTransfer64 donorMass dm = min dm (binary64 (donorMass - binary64 0.1))"

text \<open>
  \<^verbatim>\<open>if (maxTransfer <= 0) return; donor.massCurrent -= maxTransfer;\<close>: the donor's
  mass after \<^verbatim>\<open>transferMass\<close>.
\<close>

definition donorMass64 :: "real \<Rightarrow> real \<Rightarrow> real" where
  "donorMass64 donorMass dm =
     (let maxTransfer = maxTransfer64 donorMass dm
      in if maxTransfer \<le> 0 then donorMass
         else binary64 (donorMass - maxTransfer))"

subsection \<open>Example states\<close>

text \<open>
  Three binaries as the controls can set them up from the initial state, at the initial
  transfer rate. In \<open>rlofState\<close>, a primary of 8 and a secondary of 1 solar mass 0.03 AU
  apart, the primary overfills its Roche lobe and the secondary does not. In
  \<open>contactState\<close>, two stars of 8 solar masses 0.01 AU apart, both overfill. In
  \<open>detachedState\<close>, two stars of 1 solar mass 0.5 AU apart, neither does.
\<close>

definition rlofState :: state where
  "rlofState = initialState\<lparr>star1 := makeStar 8, star2 := makeStar 1, binary := True,
     separationAU := 0.03\<rparr>"

definition contactState :: state where
  "contactState = initialState\<lparr>star1 := makeStar 8, star2 := makeStar 8, binary := True,
     separationAU := 0.01\<rparr>"

definition detachedState :: state where
  "detachedState = initialState\<lparr>star2 := makeStar 1, binary := True\<rparr>"

section \<open>Basic facts about the operations\<close>

lemma resetStarTimes_fields:
  "tMS (resetStarTimes s) = msLifetimeYears (massCurrent s)"
  "tProtostar (resetStarTimes s) = msLifetimeYears (massCurrent s) * 0.01"
  "tGiant (resetStarTimes s) = msLifetimeYears (massCurrent s) * 0.1"
  "tTotal (resetStarTimes s) =
     msLifetimeYears (massCurrent s) * 0.01 + msLifetimeYears (massCurrent s)
       + msLifetimeYears (massCurrent s) * 0.1"
  by (simp_all add: resetStarTimes_def Let_def)

lemma resetStarTimes_frame:
  "massInitial (resetStarTimes s) = massInitial s"
  "massCurrent (resetStarTimes s) = massCurrent s"
  "age (resetStarTimes s) = age s"
  "ended (resetStarTimes s) = ended s"
  "fate (resetStarTimes s) = fate s"
  "collapseAnimating (resetStarTimes s) = collapseAnimating s"
  "collapseProgress (resetStarTimes s) = collapseProgress s"
  "justEnded (resetStarTimes s) = justEnded s"
  "hadSupernova (resetStarTimes s) = hadSupernova s"
  by (simp_all add: resetStarTimes_def Let_def)

lemma phaseTimesOk_resetStarTimes: "phaseTimesOk (resetStarTimes s)"
  by (simp add: phaseTimesOk_def resetStarTimes_fields)

lemma phaseTimesOk_makeStar: "phaseTimesOk (makeStar m)"
  by (simp add: phaseTimesOk_def makeStar_def Let_def)

lemma makeStar_one:
  "makeStar 1 = \<lparr> massInitial = 1, massCurrent = 1, age = 0, tProtostar = 100000000,
     tMS = 10000000000, tGiant = 1000000000, tTotal = 11100000000, ended = False,
     fate = ''White Dwarf'', collapseAnimating = False, collapseProgress = 0,
     justEnded = False, hadSupernova = False \<rparr>"
  by (simp add: makeStar_def clamp_def Let_def msLifetimeYears_def GYR_def YEAR_def
      fateForMass_def WD_MAX_def)

text \<open>The two outcomes of \<open>transferMass\<close>: the early return, and the transfer.\<close>

lemma transferMass_zero:
  assumes "min dm (massCurrent donor - 0.1) \<le> 0"
  shows "transferMass donor accretor dm = (donor, accretor)"
  using assms by (simp add: transferMass_def Let_def)

lemma transferMass_nonzero:
  assumes "0 < min dm (massCurrent donor - 0.1)"
  shows "transferMass donor accretor dm =
    (resetStarTimes (donor\<lparr>massCurrent := massCurrent donor - min dm (massCurrent donor - 0.1),
                            fate := fateForMass (massCurrent donor - min dm (massCurrent donor - 0.1))\<rparr>),
     resetStarTimes (accretor\<lparr>massCurrent := massCurrent accretor + min dm (massCurrent donor - 0.1),
                            fate := fateForMass (massCurrent accretor + min dm (massCurrent donor - 0.1))\<rparr>))"
proof -
  from assms have neg: "(min dm (massCurrent donor - 0.1) \<le> 0) = False"
    by (simp only: not_le [symmetric] simp_thms)
  show ?thesis by (simp add: transferMass_def Let_def neg)
qed

lemma phaseTimesOk_transferMass:
  assumes "phaseTimesOk donor" "phaseTimesOk accretor"
  shows "phaseTimesOk (fst (transferMass donor accretor dm)) \<and>
         phaseTimesOk (snd (transferMass donor accretor dm))"
proof (cases "min dm (massCurrent donor - 0.1) \<le> 0")
  case True
  then show ?thesis using assms by (simp add: transferMass_zero)
next
  case False
  then have "0 < min dm (massCurrent donor - 0.1)" by linarith
  then show ?thesis by (simp add: transferMass_nonzero phaseTimesOk_resetStarTimes)
qed

text \<open>\<open>doMassTransfer\<close> leaves the state alone or stores the result of one transfer.\<close>

lemma doMassTransfer_cases:
  "doMassTransfer dtYears st = st \<or>
   doMassTransfer dtYears st =
     st\<lparr>star1 := fst (transferMass (star1 st) (star2 st) (transferRatePerYear st * dtYears)),
        star2 := snd (transferMass (star1 st) (star2 st) (transferRatePerYear st * dtYears))\<rparr> \<or>
   doMassTransfer dtYears st =
     st\<lparr>star1 := snd (transferMass (star2 st) (star1 st) (transferRatePerYear st * dtYears)),
        star2 := fst (transferMass (star2 st) (star1 st) (transferRatePerYear st * dtYears))\<rparr>"
  by (simp add: doMassTransfer_def Let_def split_beta)

lemma phaseTimesOk_doMassTransfer:
  assumes "phaseTimesOk (star1 st)" "phaseTimesOk (star2 st)"
  shows "phaseTimesOk (star1 (doMassTransfer dtYears st)) \<and>
         phaseTimesOk (star2 (doMassTransfer dtYears st))"
  using doMassTransfer_cases [of dtYears st] assms
    phaseTimesOk_transferMass [of "star1 st" "star2 st" "transferRatePerYear st * dtYears"]
    phaseTimesOk_transferMass [of "star2 st" "star1 st" "transferRatePerYear st * dtYears"]
  by auto

lemma clamp_bounds:
  assumes "lo \<le> hi"
  shows "lo \<le> clamp v lo hi" "clamp v lo hi \<le> hi"
  using assms by (simp_all add: clamp_def)

lemma makeStar_fields:
  "massInitial (makeStar m) = clamp m 0.1 50"
  "massCurrent (makeStar m) = clamp m 0.1 50"
  "age (makeStar m) = 0"
  "tMS (makeStar m) = msLifetimeYears (clamp m 0.1 50)"
  "ended (makeStar m) = False"
  "justEnded (makeStar m) = False"
  "hadSupernova (makeStar m) = False"
  "fate (makeStar m) = fateForMass (clamp m 0.1 50)"
  by (simp_all add: makeStar_def Let_def)

text \<open>Every star the program builds has a nonnegative main-sequence lifetime.\<close>

lemma tMS_nonneg:
  "0 \<le> tMS (makeStar m)" "0 \<le> tMS (resetStarTimes s)"
  by (simp_all add: makeStar_fields resetStarTimes_fields msLifetimeYears_def GYR_def YEAR_def)

lemma msLifetimeYears_pos: "0 < m \<Longrightarrow> 0 < msLifetimeYears m"
  by (simp add: msLifetimeYears_def GYR_def YEAR_def)

lemma makeStar_times_pos:
  "0 < tMS (makeStar m)" "0 < tProtostar (makeStar m)" "0 < tGiant (makeStar m)"
  "0 < tTotal (makeStar m)"
proof -
  have "0.1 \<le> clamp m 0.1 50" by (rule clamp_bounds) simp
  then have "0 < clamp m 0.1 50" by simp
  then have p: "0 < msLifetimeYears (clamp m 0.1 50)" by (rule msLifetimeYears_pos)
  from p show "0 < tMS (makeStar m)" by (simp add: makeStar_fields)
  from p show "0 < tProtostar (makeStar m)" by (simp add: makeStar_def Let_def)
  from p show "0 < tGiant (makeStar m)" by (simp add: makeStar_def Let_def)
  from p show "0 < tTotal (makeStar m)" by (simp add: makeStar_def Let_def)
qed

text \<open>What each part of a step leaves alone.\<close>

lemma drawStars_frame:
  "t (drawStars st) = t st"
  "binary (drawStars st) = binary st"
  "separationAU (drawStars st) = separationAU st"
  "transferRatePerYear (drawStars st) = transferRatePerYear st"
  "speed (drawStars st) = speed st"
  "running (drawStars st) = running st"
  "lastTs (drawStars st) = lastTs st"
  by (simp_all add: drawStars_def split_beta)

lemma doMassTransfer_frame:
  "t (doMassTransfer dtYears st) = t st"
  "binary (doMassTransfer dtYears st) = binary st"
  "separationAU (doMassTransfer dtYears st) = separationAU st"
  "transferRatePerYear (doMassTransfer dtYears st) = transferRatePerYear st"
  "speed (doMassTransfer dtYears st) = speed st"
  "running (doMassTransfer dtYears st) = running st"
  "lastTs (doMassTransfer dtYears st) = lastTs st"
  "explosions (doMassTransfer dtYears st) = explosions st"
  by (simp_all add: doMassTransfer_def Let_def split_beta)

lemma advanceStars_frame:
  "t (advanceStars dtYears dtMs st) = t st"
  "binary (advanceStars dtYears dtMs st) = binary st"
  "separationAU (advanceStars dtYears dtMs st) = separationAU st"
  "transferRatePerYear (advanceStars dtYears dtMs st) = transferRatePerYear st"
  "speed (advanceStars dtYears dtMs st) = speed st"
  "running (advanceStars dtYears dtMs st) = running st"
  "lastTs (advanceStars dtYears dtMs st) = lastTs st"
  "explosions (advanceStars dtYears dtMs st) = explosions st"
  by (simp_all add: advanceStars_def Let_def)

lemma updateExplosions_frame:
  "t (updateExplosions dtMs st) = t st"
  "binary (updateExplosions dtMs st) = binary st"
  "separationAU (updateExplosions dtMs st) = separationAU st"
  "transferRatePerYear (updateExplosions dtMs st) = transferRatePerYear st"
  "speed (updateExplosions dtMs st) = speed st"
  "running (updateExplosions dtMs st) = running st"
  "lastTs (updateExplosions dtMs st) = lastTs st"
  "star1 (updateExplosions dtMs st) = star1 st"
  "star2 (updateExplosions dtMs st) = star2 st"
  by (simp_all add: updateExplosions_def Let_def)

lemma t_advanceTime: "t (advanceTime dtYears dtMs st) = t st + dtYears"
  by (simp add: advanceTime_def updateUI_def drawStars_frame updateExplosions_frame
      doMassTransfer_frame advanceStars_frame)

section \<open>The fate thresholds\<close>

text \<open>
  Claim C5. For every mass, \<open>fateForMass\<close> returns White Dwarf when the mass is below 8,
  Neutron Star when it is at least 8 and below 20, and Black Hole when it is at least 20.
  The witness evaluates the four boundary values 7.99, 8.0, 19.99 and 20.0.
\<close>

theorem fateForMass_thresholds:
  "(mass < 8 \<longrightarrow> fateForMass mass = ''White Dwarf'') \<and>
   (8 \<le> mass \<and> mass < 20 \<longrightarrow> fateForMass mass = ''Neutron Star'') \<and>
   (20 \<le> mass \<longrightarrow> fateForMass mass = ''Black Hole'')"
  by (simp add: fateForMass_def WD_MAX_def NS_MAX_def)

theorem fateForMass_thresholds_witness:
  "fateForMass 7.99 = ''White Dwarf'' \<and> fateForMass 8.0 = ''Neutron Star'' \<and>
   fateForMass 19.99 = ''Neutron Star'' \<and> fateForMass 20.0 = ''Black Hole''"
  using fateForMass_thresholds [of "7.99"] fateForMass_thresholds [of "8.0"]
    fateForMass_thresholds [of "19.99"] fateForMass_thresholds [of "20.0"]
  by simp

section \<open>Recomputation after a mass transfer\<close>

text \<open>
  Claim C3. A transfer is nonzero when the capped amount \<open>min dm (massCurrent donor - 0.1)\<close>
  is positive. Then the donor loses and the accretor gains that amount, the fate of each
  star is \<open>fateForMass\<close> of its new current mass, the four phase durations of each star
  are recomputed from its new current mass, and the age and the initial mass of both
  stars are what they were.
\<close>

theorem transferMass_recomputes:
  assumes "0 < min dm (massCurrent donor - 0.1)"
    and "transferMass donor accretor dm = (donor', accretor')"
  shows "massCurrent donor' = massCurrent donor - min dm (massCurrent donor - 0.1) \<and>
         massCurrent accretor' = massCurrent accretor + min dm (massCurrent donor - 0.1) \<and>
         fate donor' = fateForMass (massCurrent donor') \<and>
         fate accretor' = fateForMass (massCurrent accretor') \<and>
         tMS donor' = msLifetimeYears (massCurrent donor') \<and>
         tProtostar donor' = tMS donor' * 0.01 \<and>
         tGiant donor' = tMS donor' * 0.1 \<and>
         tTotal donor' = tProtostar donor' + tMS donor' + tGiant donor' \<and>
         tMS accretor' = msLifetimeYears (massCurrent accretor') \<and>
         tProtostar accretor' = tMS accretor' * 0.01 \<and>
         tGiant accretor' = tMS accretor' * 0.1 \<and>
         tTotal accretor' = tProtostar accretor' + tMS accretor' + tGiant accretor' \<and>
         age donor' = age donor \<and> age accretor' = age accretor \<and>
         massInitial donor' = massInitial donor \<and> massInitial accretor' = massInitial accretor"
proof -
  from assms(2) have d: "donor' = fst (transferMass donor accretor dm)"
    and a: "accretor' = snd (transferMass donor accretor dm)"
    by simp_all
  show ?thesis
    unfolding d a transferMass_nonzero [OF assms(1)]
    by (simp add: resetStarTimes_fields resetStarTimes_frame)
qed

theorem transferMass_recomputes_witness:
  "0 < min 1 (massCurrent (makeStar 3) - 0.1) \<and>
   (let d = fst (transferMass (makeStar 3) (makeStar 1) 1);
        a = snd (transferMass (makeStar 3) (makeStar 1) 1)
    in massCurrent d = 2 \<and> massCurrent a = 2 \<and>
       fate d = ''White Dwarf'' \<and> fate a = ''White Dwarf'' \<and>
       tTotal d = tProtostar d + tMS d + tGiant d \<and>
       tTotal a = tProtostar a + tMS a + tGiant a \<and>
       tMS d = msLifetimeYears 2 \<and> tMS a = msLifetimeYears 2 \<and>
       age d = 0 \<and> age a = 0 \<and> massInitial d = 3 \<and> massInitial a = 1)"
proof -
  have m: "massCurrent (makeStar 3) = 3" "massCurrent (makeStar 1) = 1"
    "massInitial (makeStar 3) = 3" "massInitial (makeStar 1) = 1"
    "age (makeStar 3) = 0" "age (makeStar 1) = 0"
    by (simp_all add: makeStar_def clamp_def Let_def)
  have h: "0 < min 1 (massCurrent (makeStar 3) - 0.1)"
    by (simp add: m)
  show ?thesis
    using h transferMass_recomputes [OF h surjective_pairing, of "makeStar 1"]
    by (simp add: m Let_def fateForMass_def WD_MAX_def)
qed

section \<open>The phase durations\<close>

text \<open>
  Claim C4. For every mass in [0.1, 50], the star that \<open>makeStar\<close> builds has that mass,
  its main-sequence lifetime, and the relation
  \<open>tTotal = tProtostar + tMS + tGiant\<close>, \<open>tProtostar = 0.01 * tMS\<close>, \<open>tGiant = 0.10 * tMS\<close>
  (the predicate \<open>phaseTimesOk\<close>); \<open>makeStar\<close> establishes the relation for any argument.
  The relation also holds after every recomputation of the durations: after
  \<open>resetStarTimes\<close>, for both stars after a nonzero \<open>transferMass\<close>, and it is kept for
  both stars of the state by \<open>doMassTransfer\<close>.
\<close>

theorem phase_durations_relation:
  "(0.1 \<le> mass \<and> mass \<le> 50 \<longrightarrow>
      massCurrent (makeStar mass) = mass \<and>
      tMS (makeStar mass) = msLifetimeYears mass \<and>
      tTotal (makeStar mass) =
        tProtostar (makeStar mass) + tMS (makeStar mass) + tGiant (makeStar mass) \<and>
      tProtostar (makeStar mass) = 0.01 * tMS (makeStar mass) \<and>
      tGiant (makeStar mass) = 0.10 * tMS (makeStar mass)) \<and>
   phaseTimesOk (makeStar initialMass) \<and>
   phaseTimesOk (resetStarTimes s) \<and>
   (0 < min dm (massCurrent donor - 0.1) \<longrightarrow>
      phaseTimesOk (fst (transferMass donor accretor dm)) \<and>
      phaseTimesOk (snd (transferMass donor accretor dm))) \<and>
   (phaseTimesOk (star1 st) \<and> phaseTimesOk (star2 st) \<longrightarrow>
      phaseTimesOk (star1 (doMassTransfer dtYears st)) \<and>
      phaseTimesOk (star2 (doMassTransfer dtYears st)))"
proof -
  have "0.1 \<le> mass \<and> mass \<le> 50 \<longrightarrow> clamp mass 0.1 50 = mass"
    by (simp add: clamp_def)
  then have a: "0.1 \<le> mass \<and> mass \<le> 50 \<longrightarrow>
      massCurrent (makeStar mass) = mass \<and>
      tMS (makeStar mass) = msLifetimeYears mass \<and>
      tTotal (makeStar mass) =
        tProtostar (makeStar mass) + tMS (makeStar mass) + tGiant (makeStar mass) \<and>
      tProtostar (makeStar mass) = 0.01 * tMS (makeStar mass) \<and>
      tGiant (makeStar mass) = 0.10 * tMS (makeStar mass)"
    by (simp add: makeStar_def Let_def)
  have b: "0 < min dm (massCurrent donor - 0.1) \<longrightarrow>
      phaseTimesOk (fst (transferMass donor accretor dm)) \<and>
      phaseTimesOk (snd (transferMass donor accretor dm))"
    by (simp add: transferMass_nonzero phaseTimesOk_resetStarTimes)
  from a b phaseTimesOk_makeStar phaseTimesOk_resetStarTimes phaseTimesOk_doMassTransfer
  show ?thesis by blast
qed

theorem phase_durations_relation_witness:
  "massCurrent (makeStar 1) = 1 \<and> tMS (makeStar 1) = msLifetimeYears 1 \<and>
   tMS (makeStar 1) = 10000000000 \<and>
   tProtostar (makeStar 1) = 100000000 \<and>
   tGiant (makeStar 1) = 1000000000 \<and>
   tTotal (makeStar 1) = 11100000000 \<and>
   0 < min 1 (massCurrent (makeStar 3) - 0.1) \<and>
   phaseTimesOk (fst (transferMass (makeStar 3) (makeStar 1) 1)) \<and>
   phaseTimesOk (snd (transferMass (makeStar 3) (makeStar 1) 1)) \<and>
   phaseTimesOk (star1 initialState) \<and> phaseTimesOk (star2 initialState) \<and>
   phaseTimesOk (star1 (doMassTransfer 1000 initialState)) \<and>
   phaseTimesOk (star2 (doMassTransfer 1000 initialState))"
proof -
  have h: "0 < min 1 (massCurrent (makeStar 3) - 0.1)"
    by (simp add: makeStar_fields clamp_def)
  have i: "phaseTimesOk (star1 initialState)" "phaseTimesOk (star2 initialState)"
    by (simp_all add: initialState_def phaseTimesOk_makeStar)
  have v: "tMS (makeStar 1) = 10000000000 \<and> tProtostar (makeStar 1) = 100000000 \<and>
    tGiant (makeStar 1) = 1000000000 \<and> tTotal (makeStar 1) = 11100000000"
    by (simp add: makeStar_one)
  note rel = phase_durations_relation [where mass = 1 and dm = 1 and donor = "makeStar 3"
      and accretor = "makeStar 1" and st = initialState and dtYears = 1000]
  from rel have a: "massCurrent (makeStar 1) = 1 \<and> tMS (makeStar 1) = msLifetimeYears 1"
    by simp
  from h i rel
  have "phaseTimesOk (fst (transferMass (makeStar 3) (makeStar 1) 1)) \<and>
    phaseTimesOk (snd (transferMass (makeStar 3) (makeStar 1) 1)) \<and>
    phaseTimesOk (star1 (doMassTransfer 1000 initialState)) \<and>
    phaseTimesOk (star2 (doMassTransfer 1000 initialState))"
    by blast
  with h i v a show ?thesis by blast
qed

section \<open>The displayed stage\<close>

text \<open>
  Claim C6. For a star that has not ended, \<open>stageForStar\<close> is Protostar while
  \<open>age < tProtostar\<close>, Main Sequence while \<open>tProtostar \<le> age < tProtostar + tMS\<close>, and for
  \<open>tProtostar + tMS \<le> age < tTotal\<close> it is Supergiant when \<open>massInitial \<ge> 8\<close> and Giant
  otherwise; the current mass plays no part in it (last conjunct). For a star that has
  ended the stage is its fate. The post-main-sequence case is stated for a star whose
  \<open>tMS\<close> is not negative, as it is for every star: \<open>makeStar\<close> and \<open>resetStarTimes\<close>,
  the only writers of \<open>tMS\<close>, store a value that is not negative (last two conjuncts).
\<close>

theorem stageForStar_cases:
  "(\<not> ended s \<and> age s < tProtostar s \<longrightarrow> stageForStar s = ''Protostar'') \<and>
   (\<not> ended s \<and> tProtostar s \<le> age s \<and> age s < tProtostar s + tMS s
      \<longrightarrow> stageForStar s = ''Main Sequence'') \<and>
   (\<not> ended s \<and> 0 \<le> tMS s \<and> tProtostar s + tMS s \<le> age s \<and> age s < tTotal s
      \<longrightarrow> stageForStar s = (if massInitial s \<ge> 8 then ''Supergiant'' else ''Giant'')) \<and>
   (ended s \<longrightarrow> stageForStar s = fate s) \<and>
   stageForStar (s\<lparr>massCurrent := m\<rparr>) = stageForStar s \<and>
   0 \<le> tMS (makeStar initialMass) \<and> 0 \<le> tMS (resetStarTimes s)"
  by (simp add: stageForStar_def tMS_nonneg)

theorem stageForStar_cases_witness:
  "stageForStar (makeStar 1) = ''Protostar'' \<and>
   stageForStar ((makeStar 1)\<lparr>age := 5000000000\<rparr>) = ''Main Sequence'' \<and>
   stageForStar ((makeStar 1)\<lparr>age := 11000000000\<rparr>) = ''Giant'' \<and>
   stageForStar ((makeStar 16)\<lparr>age := tProtostar (makeStar 16) + tMS (makeStar 16)\<rparr>)
     = ''Supergiant'' \<and>
   stageForStar ((makeStar 16)\<lparr>age := tProtostar (makeStar 16) + tMS (makeStar 16),
       massCurrent := 2\<rparr>) = ''Supergiant'' \<and>
   stageForStar ((makeStar 1)\<lparr>age := 11100000000, ended := True\<rparr>) = ''White Dwarf''"
proof -
  let ?g = "(makeStar 16)\<lparr>age := tProtostar (makeStar 16) + tMS (makeStar 16)\<rparr>"
  have g: "\<not> ended ?g \<and> 0 \<le> tMS ?g \<and> tProtostar ?g + tMS ?g \<le> age ?g \<and> age ?g < tTotal ?g"
    using makeStar_times_pos(3) [of 16] phaseTimesOk_makeStar [of 16] tMS_nonneg(1) [of 16]
    by (simp add: makeStar_fields phaseTimesOk_def)
  have i: "8 \<le> massInitial ?g" by (simp add: makeStar_fields clamp_def)
  from g i stageForStar_cases [of ?g 2]
  have sg: "stageForStar ?g = ''Supergiant'' \<and>
    stageForStar (?g\<lparr>massCurrent := 2\<rparr>) = ''Supergiant''"
    by simp
  have rest: "stageForStar (makeStar 1) = ''Protostar'' \<and>
    stageForStar ((makeStar 1)\<lparr>age := 5000000000\<rparr>) = ''Main Sequence'' \<and>
    stageForStar ((makeStar 1)\<lparr>age := 11000000000\<rparr>) = ''Giant'' \<and>
    stageForStar ((makeStar 1)\<lparr>age := 11100000000, ended := True\<rparr>) = ''White Dwarf''"
    using stageForStar_cases [of "makeStar 1"]
      stageForStar_cases [of "(makeStar 1)\<lparr>age := 5000000000\<rparr>"]
      stageForStar_cases [of "(makeStar 1)\<lparr>age := 11000000000\<rparr>"]
      stageForStar_cases [of "(makeStar 1)\<lparr>age := 11100000000, ended := True\<rparr>"]
    by (simp add: makeStar_one)
  from sg rest show ?thesis by blast
qed

section \<open>The simulation clock\<close>

text \<open>
  Claim C8. A frame of a running simulation has the wall-clock delta
  \<open>dtMs = ts - lastTs\<close> (0 on the first frame after play, when \<open>lastTs\<close> is 0). With
  auto-scale checked, \<open>tick\<close> advances the simulation by
  \<open>(dtMs / 1000) * (tTotal / 60)\<close> years, \<open>tTotal\<close> being that of the primary star at
  the frame; otherwise by \<open>(dtMs / 1000) * speed * 1e7\<close> years. The simulated time
  \<open>t\<close> grows by exactly that amount.
\<close>

theorem tick_dtYears:
  assumes "running st"
  shows "let dtMs = ts - (if lastTs st = 0 then ts else lastTs st) in
     tick ts True st =
       advanceTime ((dtMs / 1000) * (tTotal (star1 st) / 60)) dtMs (st\<lparr>lastTs := ts\<rparr>) \<and>
     tick ts False st =
       advanceTime ((dtMs / 1000) * speed st * 10000000) dtMs (st\<lparr>lastTs := ts\<rparr>) \<and>
     t (tick ts True st) = t st + (dtMs / 1000) * (tTotal (star1 st) / 60) \<and>
     t (tick ts False st) = t st + (dtMs / 1000) * speed st * 10000000"
  using assms by (simp add: tick_def Let_def t_advanceTime)

theorem tick_dtYears_witness:
  "running (initialState\<lparr>running := True, lastTs := 1000\<rparr>) \<and>
   t (tick 1016 True (initialState\<lparr>running := True, lastTs := 1000\<rparr>)) = 2960000 \<and>
   t (tick 1016 False (initialState\<lparr>running := True, lastTs := 1000\<rparr>)) = 1600000"
proof -
  have r: "running (initialState\<lparr>running := True, lastTs := 1000\<rparr>)" by simp
  have v: "t initialState = 0" "speed initialState = 10"
    "tTotal (star1 initialState) = 11100000000"
    by (simp_all add: initialState_def makeStar_one)
  show ?thesis
    using tick_dtYears [OF r, of 1016] by (simp add: Let_def v t_advanceTime)
qed

section \<open>The Roche-lobe radius\<close>

lemma rocheLobeRadiusAU_unfold:
  "rocheLobeRadiusAU mDonor mAccretor sepAU =
     0.49 * (root 3 (clamp (mDonor / mAccretor) 0.001 1000)
             * root 3 (clamp (mDonor / mAccretor) 0.001 1000))
       / (0.6 * (root 3 (clamp (mDonor / mAccretor) 0.001 1000)
                 * root 3 (clamp (mDonor / mAccretor) 0.001 1000))
          + ln (1 + root 3 (clamp (mDonor / mAccretor) 0.001 1000))) * sepAU"
  by (simp add: rocheLobeRadiusAU_def Let_def)

text \<open>The Eggleton fraction at a positive cube root \<open>x\<close> of the mass ratio.\<close>

lemma eggleton_fraction_bounds:
  fixes x :: real
  assumes "0 < x"
  shows "0 < 0.6 * (x * x) + ln (1 + x)"
    and "0 < 0.49 * (x * x) / (0.6 * (x * x) + ln (1 + x))"
    and "0.49 * (x * x) / (0.6 * (x * x) + ln (1 + x)) < 49 / 60"
proof -
  from assms have l: "0 < ln (1 + x)" by (simp add: ln_gt_zero)
  from assms have xx: "0 < x * x" by simp
  from l xx show d: "0 < 0.6 * (x * x) + ln (1 + x)" by simp
  from xx d show "0 < 0.49 * (x * x) / (0.6 * (x * x) + ln (1 + x))" by simp
  have "0.49 * (x * x) * 60 < 49 * (0.6 * (x * x) + ln (1 + x))"
    using l by simp
  then show "0.49 * (x * x) / (0.6 * (x * x) + ln (1 + x)) < 49 / 60"
    using d by (simp add: divide_simps)
qed

lemma roche_q13_pos: "0 < root 3 (clamp (mDonor / mAccretor) 0.001 1000)"
proof -
  have "0.001 \<le> clamp (mDonor / mAccretor) 0.001 1000"
    by (rule clamp_bounds) simp
  then have "0 < clamp (mDonor / mAccretor) 0.001 1000" by simp
  then show ?thesis by (simp add: real_root_gt_zero)
qed

lemma rocheLobeRadiusAU_bounds:
  assumes "0 < sepAU"
  shows "0 < rocheLobeRadiusAU mDonor mAccretor sepAU"
    and "rocheLobeRadiusAU mDonor mAccretor sepAU < (49 / 60) * sepAU"
    and "rocheLobeRadiusAU mDonor mAccretor sepAU < sepAU"
proof -
  note b = eggleton_fraction_bounds [OF roche_q13_pos, of mDonor mAccretor]
  from b(2) assms show "0 < rocheLobeRadiusAU mDonor mAccretor sepAU"
    unfolding rocheLobeRadiusAU_unfold by (rule mult_pos_pos)
  from b(3) assms show u: "rocheLobeRadiusAU mDonor mAccretor sepAU < (49 / 60) * sepAU"
    unfolding rocheLobeRadiusAU_unfold by (rule mult_strict_right_mono)
  from assms have "(49 / 60) * sepAU < sepAU" by simp
  with u show "rocheLobeRadiusAU mDonor mAccretor sepAU < sepAU" by linarith
qed

text \<open>
  Claim C10. For positive donor and accretor masses and a separation in [0.01, 10],
  \<open>rocheLobeRadiusAU\<close> is strictly positive and strictly below the separation; the
  Eggleton fraction stays below 0.49 / 0.6, the logarithm being positive.
\<close>

theorem rocheLobeRadiusAU_inside_orbit:
  assumes "0 < mDonor" "0 < mAccretor" "0.01 \<le> sepAU" "sepAU \<le> 10"
  shows "0 < rocheLobeRadiusAU mDonor mAccretor sepAU \<and>
         rocheLobeRadiusAU mDonor mAccretor sepAU < sepAU \<and>
         rocheLobeRadiusAU mDonor mAccretor sepAU < (0.49 / 0.6) * sepAU"
proof -
  from assms(3) have "0 < sepAU" by simp
  from rocheLobeRadiusAU_bounds [OF this, of mDonor mAccretor] show ?thesis by simp
qed

theorem rocheLobeRadiusAU_inside_orbit_witness:
  "(0::real) < 8 \<and> (0::real) < 1 \<and> (0.01::real) \<le> 0.03 \<and> (0.03::real) \<le> 10 \<and>
   0 < rocheLobeRadiusAU 8 1 0.03 \<and> rocheLobeRadiusAU 8 1 0.03 < 0.03"
  using rocheLobeRadiusAU_inside_orbit [of 8 1 "0.03"] by simp

subsection \<open>Numeric bounds for the example states\<close>

lemma root3_8: "root 3 (8::real) = 2"
proof -
  have "root 3 ((2::real) ^ 3) = 2" by (rule real_root_power_cancel) simp_all
  then show ?thesis by simp
qed

lemma root3_eighth: "root 3 (1/8::real) = 1/2"
proof -
  have "root 3 ((1/2::real) ^ 3) = 1/2" by (rule real_root_power_cancel) simp_all
  then show ?thesis by (simp add: power3_eq_cube)
qed

lemma ln3_ge_1: "1 \<le> ln (3::real)"
  using exp_le by (simp add: ln_ge_iff)

lemma ln_three_halves_le: "ln (3/2::real) \<le> 1/2"
  using ln_le_minus_one [of "3/2::real"] by simp

lemma eight_powr_ge_4: "4 \<le> (8::real) powr 0.8"
proof -
  have "(8::real) powr (2/3) = (2 powr 3) powr (2/3)" by simp
  also have "\<dots> = 2 powr 2" by (simp only: powr_powr) simp
  also have "\<dots> = 4" by simp
  finally have e: "(8::real) powr (2/3) = 4" .
  have "(8::real) powr (2/3) \<le> 8 powr 0.8" by (rule powr_mono) simp_all
  with e show ?thesis by simp
qed

lemma egg_upper:
  fixes L :: real
  assumes "1 \<le> L"
  shows "0.49 * (2 * 2) / (0.6 * (2 * 2) + L) * 0.03 < 4 / 215"
proof -
  have d: "0 < 0.6 * (2 * 2) + L" using assms by simp
  have "0.49 * (2 * 2) * 0.03 * 215 < 4 * (0.6 * (2 * 2) + L)" using assms by simp
  then have "0.49 * (2 * 2) * 0.03 / (0.6 * (2 * 2) + L) < 4 / 215"
    using d by (simp add: pos_divide_less_eq pos_less_divide_eq)
  then show ?thesis by simp
qed

lemma egg_lower:
  fixes L :: real
  assumes "0 < L" "L \<le> 1/2"
  shows "1 / 215 \<le> 0.49 * ((1/2) * (1/2)) / (0.6 * ((1/2) * (1/2)) + L) * 0.03"
proof -
  have d: "0 < 0.6 * ((1/2) * (1/2)) + L" using assms by simp
  have "1 * (0.6 * ((1/2) * (1/2)) + L) \<le> 0.49 * ((1/2) * (1/2)) * 0.03 * 215"
    using assms by simp
  then have "1 / 215 \<le> 0.49 * ((1/2) * (1/2)) * 0.03 / (0.6 * ((1/2) * (1/2)) + L)"
    using d by (simp add: pos_divide_le_eq pos_le_divide_eq)
  then show ?thesis by simp
qed

lemma roche_8_1: "rocheLobeRadiusAU 8 1 0.03 < 4 / 215"
proof -
  have q: "root 3 (clamp (8 / 1) 0.001 1000) = 2" by (simp add: clamp_def root3_8)
  have "1 \<le> ln (1 + 2 :: real)" using ln3_ge_1 by simp
  from egg_upper [OF this] show ?thesis
    unfolding rocheLobeRadiusAU_unfold q .
qed

lemma roche_1_8: "1 / 215 \<le> rocheLobeRadiusAU 1 8 0.03"
proof -
  have q: "root 3 (clamp (1 / 8) 0.001 1000) = 1 / 2" by (simp add: clamp_def root3_eighth)
  have "0 < ln (1 + 1 / 2 :: real)" "ln (1 + 1 / 2 :: real) \<le> 1 / 2"
    using ln_three_halves_le by (simp_all add: ln_gt_zero)
  from egg_lower [OF this] show ?thesis
    unfolding rocheLobeRadiusAU_unfold q .
qed

lemma radius_8: "4 / 215 \<le> stellarRadiusAU (radiusRsun 8)"
proof -
  have "4 \<le> clamp (8 powr 0.8) 0.05 2000"
    using eight_powr_ge_4 by (simp add: clamp_def)
  then show ?thesis by (simp add: stellarRadiusAU_def radiusRsun_def)
qed

lemma radius_1: "stellarRadiusAU (radiusRsun 1) = 1 / 215"
  by (simp add: stellarRadiusAU_def radiusRsun_def clamp_def)

lemma rlofState_fields:
  "binary rlofState" "separationAU rlofState = 0.03"
  "transferRatePerYear rlofState = 0.01 / 1000000"
  "star1 rlofState = makeStar 8" "star2 rlofState = makeStar 1"
  by (simp_all add: rlofState_def initialState_def MYR_def YEAR_def)

lemma rlofState_overfill:
  "overfills (star1 rlofState) (star2 rlofState) (separationAU rlofState)"
  "\<not> overfills (star2 rlofState) (star1 rlofState) (separationAU rlofState)"
proof -
  have m: "massCurrent (makeStar 8) = 8" "massCurrent (makeStar 1) = 1"
    by (simp_all add: makeStar_fields clamp_def)
  have "rocheLobeRadiusAU 8 1 0.03 < stellarRadiusAU (radiusRsun 8)"
    using radius_8 roche_8_1 by linarith
  then show "overfills (star1 rlofState) (star2 rlofState) (separationAU rlofState)"
    unfolding overfills_def rlofState_fields m by simp
  have "\<not> rocheLobeRadiusAU 1 8 0.03 < stellarRadiusAU (radiusRsun 1)"
    using roche_1_8 unfolding radius_1 by linarith
  then show "\<not> overfills (star2 rlofState) (star1 rlofState) (separationAU rlofState)"
    unfolding overfills_def rlofState_fields m by simp
qed

lemma contactState_fields:
  "binary contactState" "separationAU contactState = 0.01"
  "star1 contactState = makeStar 8" "star2 contactState = makeStar 8"
  by (simp_all add: contactState_def)

lemma detachedState_fields:
  "binary detachedState" "separationAU detachedState = 0.5"
  "star1 detachedState = makeStar 1" "star2 detachedState = makeStar 1"
  by (simp_all add: detachedState_def initialState_def)

lemma contactState_overfill:
  "overfills (star1 contactState) (star2 contactState) (separationAU contactState)"
  "overfills (star2 contactState) (star1 contactState) (separationAU contactState)"
proof -
  have m: "massCurrent (makeStar 8) = 8" by (simp add: makeStar_fields clamp_def)
  have "rocheLobeRadiusAU 8 8 0.01 < (49 / 60) * 0.01"
    by (rule rocheLobeRadiusAU_bounds) simp
  also have "\<dots> < (4 / 215 :: real)" by simp
  finally have "rocheLobeRadiusAU 8 8 0.01 < stellarRadiusAU (radiusRsun 8)"
    using radius_8 by linarith
  then show "overfills (star1 contactState) (star2 contactState) (separationAU contactState)"
    and "overfills (star2 contactState) (star1 contactState) (separationAU contactState)"
    unfolding overfills_def contactState_fields m by simp_all
qed

lemma egg_lower_equal:
  fixes L :: real
  assumes "0 < L" "L \<le> 1"
  shows "1 / 215 \<le> 0.49 * (1 * 1) / (0.6 * (1 * 1) + L) * 0.5"
proof -
  have d: "0 < 0.6 * (1 * 1) + L" using assms by simp
  have "1 * (0.6 * (1 * 1) + L) \<le> 0.49 * (1 * 1) * 0.5 * 215" using assms by simp
  then have "1 / 215 \<le> 0.49 * (1 * 1) * 0.5 / (0.6 * (1 * 1) + L)"
    using d by (simp add: pos_divide_le_eq pos_le_divide_eq)
  then show ?thesis by simp
qed

lemma roche_1_1: "1 / 215 \<le> rocheLobeRadiusAU 1 1 0.5"
proof -
  have q: "root 3 (clamp (1 / 1) 0.001 1000) = 1" by (simp add: clamp_def)
  have "0 < ln (1 + 1 :: real)" by (simp add: ln_gt_zero)
  moreover have "ln (1 + 1 :: real) \<le> 1" using ln_le_minus_one [of "2::real"] by simp
  ultimately show ?thesis
    unfolding rocheLobeRadiusAU_unfold q by (rule egg_lower_equal)
qed

lemma detachedState_overfill:
  "\<not> overfills (star1 detachedState) (star2 detachedState) (separationAU detachedState)"
  "\<not> overfills (star2 detachedState) (star1 detachedState) (separationAU detachedState)"
proof -
  have m: "massCurrent (makeStar 1) = 1" by (simp add: makeStar_fields clamp_def)
  have "\<not> rocheLobeRadiusAU 1 1 0.5 < stellarRadiusAU (radiusRsun 1)"
    using roche_1_1 unfolding radius_1 by linarith
  then show
    "\<not> overfills (star1 detachedState) (star2 detachedState) (separationAU detachedState)"
    and "\<not> overfills (star2 detachedState) (star1 detachedState) (separationAU detachedState)"
    unfolding overfills_def detachedState_fields m by simp_all
qed

section \<open>The transfer decision\<close>

lemma doMassTransfer_unfold:
  "doMassTransfer dtYears st =
     (if binary st \<and> \<not> ended (star1 st) \<and> \<not> ended (star2 st) then
        (if overfills (star1 st) (star2 st) (separationAU st) \<and>
            \<not> overfills (star2 st) (star1 st) (separationAU st) then
           st\<lparr>star1 := fst (transferMass (star1 st) (star2 st) (transferRatePerYear st * dtYears)),
              star2 := snd (transferMass (star1 st) (star2 st) (transferRatePerYear st * dtYears))\<rparr>
         else if overfills (star2 st) (star1 st) (separationAU st) \<and>
            \<not> overfills (star1 st) (star2 st) (separationAU st) then
           st\<lparr>star1 := snd (transferMass (star2 st) (star1 st) (transferRatePerYear st * dtYears)),
              star2 := fst (transferMass (star2 st) (star1 st) (transferRatePerYear st * dtYears))\<rparr>
         else st)
      else st)"
  by (simp add: doMassTransfer_def overfills_def Let_def split_beta)

lemma doMassTransfer_donor1:
  assumes "binary st" "\<not> ended (star1 st)" "\<not> ended (star2 st)"
    and "overfills (star1 st) (star2 st) (separationAU st)"
    and "\<not> overfills (star2 st) (star1 st) (separationAU st)"
  shows "doMassTransfer dtYears st =
    st\<lparr>star1 := fst (transferMass (star1 st) (star2 st) (transferRatePerYear st * dtYears)),
       star2 := snd (transferMass (star1 st) (star2 st) (transferRatePerYear st * dtYears))\<rparr>"
  using assms by (simp add: doMassTransfer_unfold)

lemma doMassTransfer_donor2:
  assumes "binary st" "\<not> ended (star1 st)" "\<not> ended (star2 st)"
    and "overfills (star2 st) (star1 st) (separationAU st)"
    and "\<not> overfills (star1 st) (star2 st) (separationAU st)"
  shows "doMassTransfer dtYears st =
    st\<lparr>star1 := snd (transferMass (star2 st) (star1 st) (transferRatePerYear st * dtYears)),
       star2 := fst (transferMass (star2 st) (star1 st) (transferRatePerYear st * dtYears))\<rparr>"
  using assms by (simp add: doMassTransfer_unfold)

lemma doMassTransfer_none:
  assumes "\<not> binary st \<or> ended (star1 st) \<or> ended (star2 st) \<or>
    (overfills (star1 st) (star2 st) (separationAU st) \<longleftrightarrow>
     overfills (star2 st) (star1 st) (separationAU st))"
  shows "doMassTransfer dtYears st = st"
  using assms by (auto simp add: doMassTransfer_unfold)

lemma transferMass_masses:
  assumes "0 < min dm (massCurrent donor - 0.1)"
  shows "massCurrent (fst (transferMass donor accretor dm)) =
           massCurrent donor - min dm (massCurrent donor - 0.1)"
    and "massCurrent (snd (transferMass donor accretor dm)) =
           massCurrent accretor + min dm (massCurrent donor - 0.1)"
    and "0 < massCurrent (fst (transferMass donor accretor dm))"
proof -
  show a: "massCurrent (fst (transferMass donor accretor dm)) =
           massCurrent donor - min dm (massCurrent donor - 0.1)"
    by (simp add: transferMass_nonzero [OF assms] resetStarTimes_frame)
  show "massCurrent (snd (transferMass donor accretor dm)) =
           massCurrent accretor + min dm (massCurrent donor - 0.1)"
    by (simp add: transferMass_nonzero [OF assms] resetStarTimes_frame)
  have "min dm (massCurrent donor - 0.1) \<le> massCurrent donor - 0.1" by simp
  then show "0 < massCurrent (fst (transferMass donor accretor dm))"
    unfolding a by linarith
qed

text \<open>
  The decision of \<open>doMassTransfer\<close> in a step of a binary system (\<open>binary\<close> set: the
  mode in which the second star takes part in a step; with it off \<open>doMassTransfer\<close>
  returns at once, see \<open>doMassTransfer_none\<close>) with neither star ended: when exactly one
  star overfills its Roche lobe it is the donor, and the amount moved to the other star is
  \<open>transferRatePerYear * dtYears\<close> capped at the donor's current mass minus 0.1; when the
  capped amount is not positive the state is unchanged. When both stars overfill, when
  neither does, and when either star has ended, the state is unchanged.
\<close>

lemma doMassTransfer_decision:
  assumes "binary st"
  shows "let s1 = star1 st; s2 = star2 st; sep = separationAU st;
             dm = transferRatePerYear st * dtYears;
             cap1 = min dm (massCurrent s1 - 0.1);
             cap2 = min dm (massCurrent s2 - 0.1);
             st' = doMassTransfer dtYears st
         in (\<not> ended s1 \<and> \<not> ended s2 \<and> overfills s1 s2 sep \<and> \<not> overfills s2 s1 sep \<and> 0 < cap1
               \<longrightarrow> massCurrent (star1 st') = massCurrent s1 - cap1 \<and>
                   massCurrent (star2 st') = massCurrent s2 + cap1) \<and>
            (\<not> ended s1 \<and> \<not> ended s2 \<and> overfills s1 s2 sep \<and> \<not> overfills s2 s1 sep \<and> cap1 \<le> 0
               \<longrightarrow> st' = st) \<and>
            (\<not> ended s1 \<and> \<not> ended s2 \<and> overfills s2 s1 sep \<and> \<not> overfills s1 s2 sep \<and> 0 < cap2
               \<longrightarrow> massCurrent (star2 st') = massCurrent s2 - cap2 \<and>
                   massCurrent (star1 st') = massCurrent s1 + cap2) \<and>
            (\<not> ended s1 \<and> \<not> ended s2 \<and> overfills s2 s1 sep \<and> \<not> overfills s1 s2 sep \<and> cap2 \<le> 0
               \<longrightarrow> st' = st) \<and>
            (overfills s1 s2 sep \<and> overfills s2 s1 sep \<longrightarrow> st' = st) \<and>
            (\<not> overfills s1 s2 sep \<and> \<not> overfills s2 s1 sep \<longrightarrow> st' = st) \<and>
            (ended s1 \<or> ended s2 \<longrightarrow> st' = st)"
proof -
  let ?s1 = "star1 st" and ?s2 = "star2 st" and ?sep = "separationAU st"
  let ?dm = "transferRatePerYear st * dtYears"
  let ?cap1 = "min ?dm (massCurrent ?s1 - 0.1)"
  let ?cap2 = "min ?dm (massCurrent ?s2 - 0.1)"
  let ?st' = "doMassTransfer dtYears st"
  have one: "massCurrent (star1 ?st') = massCurrent ?s1 - ?cap1 \<and>
      massCurrent (star2 ?st') = massCurrent ?s2 + ?cap1"
    if "\<not> ended ?s1" "\<not> ended ?s2" "overfills ?s1 ?s2 ?sep" "\<not> overfills ?s2 ?s1 ?sep"
      "0 < ?cap1"
    unfolding doMassTransfer_donor1 [OF assms that(1-4)]
    using transferMass_masses(1,2) [OF that(5), of ?s2] by simp
  have one0: "?st' = st"
    if "\<not> ended ?s1" "\<not> ended ?s2" "overfills ?s1 ?s2 ?sep" "\<not> overfills ?s2 ?s1 ?sep"
      "?cap1 \<le> 0"
    unfolding doMassTransfer_donor1 [OF assms that(1-4)]
    by (simp add: transferMass_zero [OF that(5)])
  have two: "massCurrent (star2 ?st') = massCurrent ?s2 - ?cap2 \<and>
      massCurrent (star1 ?st') = massCurrent ?s1 + ?cap2"
    if "\<not> ended ?s1" "\<not> ended ?s2" "overfills ?s2 ?s1 ?sep" "\<not> overfills ?s1 ?s2 ?sep"
      "0 < ?cap2"
    unfolding doMassTransfer_donor2 [OF assms that(1-4)]
    using transferMass_masses(1,2) [OF that(5), of ?s1] by simp
  have two0: "?st' = st"
    if "\<not> ended ?s1" "\<not> ended ?s2" "overfills ?s2 ?s1 ?sep" "\<not> overfills ?s1 ?s2 ?sep"
      "?cap2 \<le> 0"
    unfolding doMassTransfer_donor2 [OF assms that(1-4)]
    by (simp add: transferMass_zero [OF that(5)])
  have both: "?st' = st" if "overfills ?s1 ?s2 ?sep" "overfills ?s2 ?s1 ?sep"
    using that by (simp add: doMassTransfer_none)
  have neither: "?st' = st" if "\<not> overfills ?s1 ?s2 ?sep" "\<not> overfills ?s2 ?s1 ?sep"
    using that by (simp add: doMassTransfer_none)
  have over: "?st' = st" if "ended ?s1 \<or> ended ?s2"
    using that by (auto simp add: doMassTransfer_none)
  from one one0 two two0 both neither over show ?thesis
    unfolding Let_def by blast
qed

text \<open>The decision at the three example states.\<close>

lemma doMassTransfer_examples:
  "massCurrent (star1 (doMassTransfer 100000000 rlofState)) = 7 \<and>
   massCurrent (star2 (doMassTransfer 100000000 rlofState)) = 2 \<and>
   doMassTransfer 0 rlofState = rlofState \<and>
   doMassTransfer 100000000 contactState = contactState \<and>
   doMassTransfer 100000000 detachedState = detachedState"
proof -
  have b: "binary rlofState" by (rule rlofState_fields)
  have e: "\<not> ended (star1 rlofState)" "\<not> ended (star2 rlofState)"
    by (simp_all add: rlofState_fields makeStar_fields)
  have m: "massCurrent (star1 rlofState) = 8" "massCurrent (star2 rlofState) = 1"
    by (simp_all add: rlofState_fields makeStar_fields clamp_def)
  have c: "min (transferRatePerYear rlofState * 100000000) (massCurrent (star1 rlofState) - 0.1)
      = 1"
    by (simp add: rlofState_fields(3) m)
  then have h:
    "0 < min (transferRatePerYear rlofState * 100000000) (massCurrent (star1 rlofState) - 0.1)"
    by (simp only: zero_less_one)
  from doMassTransfer_decision [OF b, of 100000000, unfolded Let_def] e rlofState_overfill h
  have "massCurrent (star1 (doMassTransfer 100000000 rlofState)) =
      massCurrent (star1 rlofState) -
        min (transferRatePerYear rlofState * 100000000) (massCurrent (star1 rlofState) - 0.1) \<and>
     massCurrent (star2 (doMassTransfer 100000000 rlofState)) =
      massCurrent (star2 rlofState) +
        min (transferRatePerYear rlofState * 100000000) (massCurrent (star1 rlofState) - 0.1)"
    by blast
  then have one: "massCurrent (star1 (doMassTransfer 100000000 rlofState)) = 7 \<and>
     massCurrent (star2 (doMassTransfer 100000000 rlofState)) = 2"
    using c m by simp
  have z: "min (transferRatePerYear rlofState * 0) (massCurrent (star1 rlofState) - 0.1) \<le> 0"
    by (simp add: m)
  from doMassTransfer_decision [OF b, of 0, unfolded Let_def] e rlofState_overfill z
  have zero: "doMassTransfer 0 rlofState = rlofState" by blast
  have bc: "binary contactState" by (rule contactState_fields)
  from doMassTransfer_decision [OF bc, of 100000000, unfolded Let_def] contactState_overfill
  have both: "doMassTransfer 100000000 contactState = contactState" by blast
  have bd: "binary detachedState" by (rule detachedState_fields)
  from doMassTransfer_decision [OF bd, of 100000000, unfolded Let_def] detachedState_overfill
  have neither: "doMassTransfer 100000000 detachedState = detachedState" by blast
  from one zero both neither show ?thesis by blast
qed

section \<open>End of life\<close>

lemma advanceStar_end:
  assumes "\<not> ended s" "tTotal s - age s \<le> dtYears"
  shows "advanceStar dtYears dtMs s =
    s\<lparr>age := tTotal s, ended := True, collapseAnimating := True,
      collapseProgress := 0, justEnded := True\<rparr>"
proof -
  from assms(2) have "tTotal s \<le> age s + dtYears" by linarith
  with assms(1) show ?thesis by (simp add: advanceStar_def Let_def)
qed


lemma drawStarAtWorld_star:
  "justEnded (fst (drawStarAtWorld s exs)) = False"
  "age (fst (drawStarAtWorld s exs)) = age s"
  "tTotal (fst (drawStarAtWorld s exs)) = tTotal s"
  "ended (fst (drawStarAtWorld s exs)) = ended s"
  "massCurrent (fst (drawStarAtWorld s exs)) = massCurrent s"
  "massInitial (fst (drawStarAtWorld s exs)) = massInitial s"
  "collapseAnimating (fst (drawStarAtWorld s exs)) = collapseAnimating s"
  "collapseProgress (fst (drawStarAtWorld s exs)) = collapseProgress s"
  by (simp_all add: drawStarAtWorld_def)

lemma drawStars_stars:
  "star1 (drawStars st) = fst (drawStarAtWorld (star1 st) (explosions st))"
  "star2 (drawStars st) =
     (if binary st
      then fst (drawStarAtWorld (star2 st) (snd (drawStarAtWorld (star1 st) (explosions st))))
      else star2 st)"
  by (simp_all add: drawStars_def split_beta)

lemma advanceStars_stars:
  "star1 (advanceStars dtYears dtMs st) = advanceStar dtYears dtMs (star1 st)"
  "star2 (advanceStars dtYears dtMs st) =
     (if binary st then advanceStar dtYears dtMs (star2 st) else star2 st)"
  by (simp_all add: advanceStars_def Let_def)

lemma advanceTime_integrated:
  "advanceTime dtYears dtMs st =
     updateUI (updateExplosions dtMs (integrated dtYears dtMs st))"
  by (simp add: advanceTime_def integrated_def)

lemma binary_integrated: "binary (integrated dtYears dtMs st) = binary st"
  by (simp add: integrated_def doMassTransfer_frame advanceStars_frame)

lemma advanceTime_stars:
  "star1 (advanceTime dtYears dtMs st) =
     fst (drawStarAtWorld (star1 (integrated dtYears dtMs st))
       (explosions (updateExplosions dtMs (integrated dtYears dtMs st))))"
  "binary st \<Longrightarrow> star2 (advanceTime dtYears dtMs st) =
     fst (drawStarAtWorld (star2 (integrated dtYears dtMs st))
       (snd (drawStarAtWorld (star1 (integrated dtYears dtMs st))
         (explosions (updateExplosions dtMs (integrated dtYears dtMs st))))))"
  by (simp_all add: advanceTime_integrated updateUI_def drawStars_stars updateExplosions_frame
      binary_integrated)


text \<open>Once a star of the step has ended, the mass transfer of the step does nothing.\<close>

lemma integrated_star1_ended:
  assumes "ended (advanceStar dtYears dtMs (star1 st))"
  shows "star1 (integrated dtYears dtMs st) = advanceStar dtYears dtMs (star1 st)"
proof -
  let ?a = "advanceStars dtYears dtMs (st\<lparr>t := t st + dtYears\<rparr>)"
  from assms have "ended (star1 ?a)" by (simp add: advanceStars_stars)
  then have "doMassTransfer dtYears ?a = ?a" by (simp add: doMassTransfer_none)
  then show ?thesis by (simp add: integrated_def advanceStars_stars)
qed

lemma integrated_star2_ended:
  assumes "binary st" "ended (advanceStar dtYears dtMs (star2 st))"
  shows "star2 (integrated dtYears dtMs st) = advanceStar dtYears dtMs (star2 st)"
proof -
  let ?a = "advanceStars dtYears dtMs (st\<lparr>t := t st + dtYears\<rparr>)"
  from assms have "ended (star2 ?a)" by (simp add: advanceStars_stars)
  then have "doMassTransfer dtYears ?a = ?a" by (simp add: doMassTransfer_none)
  then show ?thesis using assms(1) by (simp add: integrated_def advanceStars_stars)
qed





lemma star1_end_step:
  assumes "\<not> ended (star1 st)" "tTotal (star1 st) - age (star1 st) \<le> dtYears"
  shows "star1 (integrated dtYears dtMs st) =
    (star1 st)\<lparr>age := tTotal (star1 st), ended := True, collapseAnimating := True,
      collapseProgress := 0, justEnded := True\<rparr>"
proof -
  note a = advanceStar_end [OF assms, of dtMs]
  have "ended (advanceStar dtYears dtMs (star1 st))" unfolding a by simp
  from integrated_star1_ended [OF this] show ?thesis unfolding a .
qed

lemma star2_end_step:
  assumes "binary st" "\<not> ended (star2 st)" "tTotal (star2 st) - age (star2 st) \<le> dtYears"
  shows "star2 (integrated dtYears dtMs st) =
    (star2 st)\<lparr>age := tTotal (star2 st), ended := True, collapseAnimating := True,
      collapseProgress := 0, justEnded := True\<rparr>"
proof -
  note a = advanceStar_end [OF assms(2,3), of dtMs]
  have "ended (advanceStar dtYears dtMs (star2 st))" unfolding a by simp
  from integrated_star2_ended [OF assms(1) this] show ?thesis unfolding a .
qed

lemma advanceStar_frame:
  "massInitial (advanceStar dtYears dtMs s) = massInitial s"
  "hadSupernova (advanceStar dtYears dtMs s) = hadSupernova s"
  "massCurrent (advanceStar dtYears dtMs s) = massCurrent s"
  "tTotal (advanceStar dtYears dtMs s) = tTotal s"
  by (simp_all add: advanceStar_def Let_def)








section \<open>Age and the ended flag\<close>

lemma advanceStar_ended_at_total:
  "tTotal (advanceStar dtYears dtMs s) \<le> age (advanceStar dtYears dtMs s)
     \<longrightarrow> ended (advanceStar dtYears dtMs s)"
  by (simp add: advanceStar_def Let_def)

lemma setSimulationAge_stars:
  "star1 (setSimulationAge ageYears st) =
     fst (drawStarAtWorld ((star1 st)\<lparr>age := clamp ageYears 0 (tTotal (star1 st))\<rparr>)
       (explosions st))"
  "\<not> binary st \<Longrightarrow> star2 (setSimulationAge ageYears st) = star2 st"
  "binary st \<Longrightarrow> star2 (setSimulationAge ageYears st) =
     fst (drawStarAtWorld ((star2 st)\<lparr>age := clamp ageYears 0 (tTotal (star2 st))\<rparr>)
       (snd (drawStarAtWorld ((star1 st)\<lparr>age := clamp ageYears 0 (tTotal (star1 st))\<rparr>)
         (explosions st))))"
  by (simp_all add: setSimulationAge_def Let_def updateUI_def drawStars_stars)

lemma setSimulationAge_ended:
  "ended (star1 (setSimulationAge ageYears st)) = ended (star1 st)"
  "ended (star2 (setSimulationAge ageYears st)) = ended (star2 st)"
  by (cases "binary st"; simp add: setSimulationAge_stars drawStarAtWorld_star)+

lemma transferMass_age_ended:
  "age (fst (transferMass d a dm)) = age d" "age (snd (transferMass d a dm)) = age a"
  "ended (fst (transferMass d a dm)) = ended d" "ended (snd (transferMass d a dm)) = ended a"
  by (simp_all add: transferMass_def Let_def resetStarTimes_frame)

lemma doMassTransfer_age_ended:
  "age (star1 (doMassTransfer dtYears st)) = age (star1 st)"
  "age (star2 (doMassTransfer dtYears st)) = age (star2 st)"
  "ended (star1 (doMassTransfer dtYears st)) = ended (star1 st)"
  "ended (star2 (doMassTransfer dtYears st)) = ended (star2 st)"
  by (simp_all add: doMassTransfer_unfold transferMass_age_ended)

lemma two_powr_le_half: "(2::real) powr (-2.5) \<le> 1 / 2"
proof -
  have "(2::real) powr (-2.5) \<le> 2 powr (-1)" by (rule powr_mono) simp_all
  also have "\<dots> = 1 / 2" by (simp add: powr_minus_divide)
  finally show ?thesis .
qed

text \<open>
  A mass transfer can leave the accretor past its recomputed lifetime and not ended: the
  secondary of \<open>rlofState\<close> at an age of 11 billion years, next to a primary that was
  built anew, gains one solar mass and its \<open>tTotal\<close> drops below its age.
\<close>

lemma doMassTransfer_age_past_tTotal:
  "tTotal (star2 (doMassTransfer 100000000
      (rlofState\<lparr>star2 := (makeStar 1)\<lparr>age := 11000000000\<rparr>\<rparr>)))
     \<le> age (star2 (doMassTransfer 100000000
      (rlofState\<lparr>star2 := (makeStar 1)\<lparr>age := 11000000000\<rparr>\<rparr>))) \<and>
   \<not> ended (star2 (doMassTransfer 100000000
      (rlofState\<lparr>star2 := (makeStar 1)\<lparr>age := 11000000000\<rparr>\<rparr>)))"
proof -
  let ?st = "rlofState\<lparr>star2 := (makeStar 1)\<lparr>age := 11000000000\<rparr>\<rparr>"
  have f: "binary ?st" "star1 ?st = makeStar 8" "star2 ?st = (makeStar 1)\<lparr>age := 11000000000\<rparr>"
    "separationAU ?st = separationAU rlofState"
    "transferRatePerYear ?st = 0.01 / 1000000"
    by (simp_all add: rlofState_fields)
  have e: "\<not> ended (star1 ?st)" "\<not> ended (star2 ?st)"
    by (simp_all add: f makeStar_fields)
  have o: "overfills (star1 ?st) (star2 ?st) (separationAU ?st)"
    "\<not> overfills (star2 ?st) (star1 ?st) (separationAU ?st)"
    using rlofState_overfill by (simp_all add: overfills_def f rlofState_fields)
  have m: "massCurrent (star1 ?st) = 8" "massCurrent (star2 ?st) = 1"
    by (simp_all add: f makeStar_fields clamp_def)
  have c: "min (transferRatePerYear ?st * 100000000) (massCurrent (star1 ?st) - 0.1) = 1"
    by (simp add: rlofState_fields makeStar_fields clamp_def)
  then have h: "0 < min (transferRatePerYear ?st * 100000000) (massCurrent (star1 ?st) - 0.1)"
    by (simp only: zero_less_one)
  note d = doMassTransfer_donor1 [OF f(1) e o, of 100000000]
  have s2: "star2 (doMassTransfer 100000000 ?st) =
    snd (transferMass (star1 ?st) (star2 ?st) (transferRatePerYear ?st * 100000000))"
    unfolding d by simp
  have mass: "massCurrent (star2 (doMassTransfer 100000000 ?st)) = 2"
    unfolding s2 transferMass_masses(2) [OF h] c by (simp add: makeStar_fields clamp_def)
  have ag: "age (star2 (doMassTransfer 100000000 ?st)) = 11000000000"
    by (simp add: doMassTransfer_age_ended f)
  have en: "\<not> ended (star2 (doMassTransfer 100000000 ?st))"
    by (simp add: doMassTransfer_age_ended f makeStar_fields)
  have "tTotal (star2 (doMassTransfer 100000000 ?st)) =
     msLifetimeYears 2 * 0.01 + msLifetimeYears 2 + msLifetimeYears 2 * 0.1"
    unfolding s2 transferMass_nonzero [OF h] c
    by (simp add: resetStarTimes_fields makeStar_fields clamp_def)
  moreover have "msLifetimeYears 2 \<le> 5000000000"
    using two_powr_le_half by (simp add: msLifetimeYears_def GYR_def YEAR_def)
  ultimately have "tTotal (star2 (doMassTransfer 100000000 ?st)) \<le> 11000000000"
    by simp
  with ag en show ?thesis by simp
qed

text \<open>A lighter star lives longer.\<close>

lemma msLifetimeYears_antimono:
  assumes "0 < a" "a < b"
  shows "msLifetimeYears b < msLifetimeYears a"
proof -
  from assms have "b powr (-2.5) < a powr (-2.5)"
    by (intro powr_less_mono2_neg) simp_all
  then show ?thesis by (simp add: msLifetimeYears_def GYR_def YEAR_def)
qed

lemma tTotalFromMass_makeStar: "tTotalFromMass (makeStar m)"
  by (simp add: tTotalFromMass_def makeStar_def Let_def)

lemma tTotalFromMass_resetStarTimes: "tTotalFromMass (resetStarTimes s)"
  by (simp add: tTotalFromMass_def resetStarTimes_fields resetStarTimes_frame)

lemma tTotalFromMass_transferMass:
  assumes "0 < min dm (massCurrent d - 0.1)"
  shows "tTotalFromMass (fst (transferMass d a dm))"
    and "tTotalFromMass (snd (transferMass d a dm))"
  by (simp_all add: transferMass_nonzero [OF assms] tTotalFromMass_resetStarTimes)

text \<open>
  The donor of a transfer, not ended and younger than its lifetime, stays younger than
  the longer lifetime of its smaller mass.
\<close>

lemma donor_stays_young:
  assumes "tTotalFromMass d" "age d < tTotal d"
  shows "age (fst (transferMass d a dm)) < tTotal (fst (transferMass d a dm))"
proof (cases "min dm (massCurrent d - 0.1) \<le> 0")
  case True
  then show ?thesis using assms(2) by (simp add: transferMass_zero)
next
  case False
  then have p: "0 < min dm (massCurrent d - 0.1)" by linarith
  let ?d = "fst (transferMass d a dm)"
  have m: "massCurrent ?d < massCurrent d"
    unfolding transferMass_masses(1) [OF p] using p by linarith
  have "msLifetimeYears (massCurrent d) < msLifetimeYears (massCurrent ?d)"
    using transferMass_masses(3) [OF p] m by (rule msLifetimeYears_antimono)
  moreover have "tTotalFromMass ?d" using p by (rule tTotalFromMass_transferMass)
  ultimately have "tTotal d < tTotal ?d"
    using assms(1) unfolding tTotalFromMass_def by simp
  with assms(2) show ?thesis by (simp add: transferMass_age_ended)
qed

text \<open>The accretor of a transfer that has not gained mass is unchanged.\<close>

lemma accretor_no_gain:
  assumes "massCurrent (snd (transferMass d a dm)) \<le> massCurrent a"
  shows "snd (transferMass d a dm) = a"
proof (cases "min dm (massCurrent d - 0.1) \<le> 0")
  case True
  then show ?thesis by (simp add: transferMass_zero)
next
  case False
  then have p: "0 < min dm (massCurrent d - 0.1)" by linarith
  from assms show ?thesis unfolding transferMass_masses(2) [OF p] using p by linarith
qed

lemma endedWhenDue_advanceStar: "endedWhenDue (advanceStar dtYears dtMs s)"
  using advanceStar_ended_at_total by (simp add: endedWhenDue_def)

lemma doMassTransfer_star_cases:
  "doMassTransfer dtYears st = st \<or>
   (\<not> ended (star1 st) \<and> \<not> ended (star2 st) \<and>
    doMassTransfer dtYears st =
      st\<lparr>star1 := fst (transferMass (star1 st) (star2 st) (transferRatePerYear st * dtYears)),
         star2 := snd (transferMass (star1 st) (star2 st) (transferRatePerYear st * dtYears))\<rparr>) \<or>
   (\<not> ended (star1 st) \<and> \<not> ended (star2 st) \<and>
    doMassTransfer dtYears st =
      st\<lparr>star1 := snd (transferMass (star2 st) (star1 st) (transferRatePerYear st * dtYears)),
         star2 := fst (transferMass (star2 st) (star1 st) (transferRatePerYear st * dtYears))\<rparr>)"
  by (simp add: doMassTransfer_unfold)

lemma endedWhenDue_doMassTransfer_star1:
  assumes "endedWhenDue (star1 st)" "tTotalFromMass (star1 st)"
    and "massCurrent (star1 (doMassTransfer dtYears st)) \<le> massCurrent (star1 st)"
  shows "endedWhenDue (star1 (doMassTransfer dtYears st))"
proof -
  let ?dm = "transferRatePerYear st * dtYears"
  from doMassTransfer_star_cases [of dtYears st] show ?thesis
  proof (elim disjE conjE)
    assume "doMassTransfer dtYears st = st"
    then show ?thesis using assms(1) by simp
  next
    assume e: "\<not> ended (star1 st)"
      and d: "doMassTransfer dtYears st =
        st\<lparr>star1 := fst (transferMass (star1 st) (star2 st) ?dm),
           star2 := snd (transferMass (star1 st) (star2 st) ?dm)\<rparr>"
    from e assms(1) have "age (star1 st) < tTotal (star1 st)"
      by (auto simp add: endedWhenDue_def)
    from donor_stays_young [OF assms(2) this, of "star2 st" ?dm]
    show ?thesis unfolding d by (simp add: endedWhenDue_def)
  next
    assume d: "doMassTransfer dtYears st =
        st\<lparr>star1 := snd (transferMass (star2 st) (star1 st) ?dm),
           star2 := fst (transferMass (star2 st) (star1 st) ?dm)\<rparr>"
    from assms(3) have "massCurrent (snd (transferMass (star2 st) (star1 st) ?dm))
        \<le> massCurrent (star1 st)"
      unfolding d by simp
    then have "snd (transferMass (star2 st) (star1 st) ?dm) = star1 st"
      by (rule accretor_no_gain)
    then show ?thesis using assms(1) unfolding d by simp
  qed
qed

lemma endedWhenDue_doMassTransfer_star2:
  assumes "endedWhenDue (star2 st)" "tTotalFromMass (star2 st)"
    and "massCurrent (star2 (doMassTransfer dtYears st)) \<le> massCurrent (star2 st)"
  shows "endedWhenDue (star2 (doMassTransfer dtYears st))"
proof -
  let ?dm = "transferRatePerYear st * dtYears"
  from doMassTransfer_star_cases [of dtYears st] show ?thesis
  proof (elim disjE conjE)
    assume "doMassTransfer dtYears st = st"
    then show ?thesis using assms(1) by simp
  next
    assume d: "doMassTransfer dtYears st =
        st\<lparr>star1 := fst (transferMass (star1 st) (star2 st) ?dm),
           star2 := snd (transferMass (star1 st) (star2 st) ?dm)\<rparr>"
    from assms(3) have "massCurrent (snd (transferMass (star1 st) (star2 st) ?dm))
        \<le> massCurrent (star2 st)"
      unfolding d by simp
    then have "snd (transferMass (star1 st) (star2 st) ?dm) = star2 st"
      by (rule accretor_no_gain)
    then show ?thesis using assms(1) unfolding d by simp
  next
    assume e: "\<not> ended (star2 st)"
      and d: "doMassTransfer dtYears st =
        st\<lparr>star1 := snd (transferMass (star2 st) (star1 st) ?dm),
           star2 := fst (transferMass (star2 st) (star1 st) ?dm)\<rparr>"
    from e assms(1) have "age (star2 st) < tTotal (star2 st)"
      by (auto simp add: endedWhenDue_def)
    from donor_stays_young [OF assms(2) this, of "star1 st" ?dm]
    show ?thesis unfolding d by (simp add: endedWhenDue_def)
  qed
qed

text \<open>The invariant at the return of a complete step.\<close>

lemma endedWhenDue_advanceTime_star1:
  assumes "tTotalFromMass (star1 st)"
    and "massCurrent (star1 (advanceTime dtYears dtMs st)) \<le> massCurrent (star1 st)"
  shows "endedWhenDue (star1 (advanceTime dtYears dtMs st))"
proof -
  let ?a = "advanceStars dtYears dtMs (st\<lparr>t := t st + dtYears\<rparr>)"
  have s: "star1 ?a = advanceStar dtYears dtMs (star1 st)" by (simp add: advanceStars_stars)
  have i: "endedWhenDue (star1 ?a)" unfolding s by (rule endedWhenDue_advanceStar)
  have f: "tTotalFromMass (star1 ?a)"
    using assms(1) unfolding s by (simp add: tTotalFromMass_def advanceStar_frame)
  have n: "massCurrent (star1 (doMassTransfer dtYears ?a)) \<le> massCurrent (star1 ?a)"
    using assms(2) unfolding s
    by (simp add: advanceTime_stars integrated_def drawStarAtWorld_star advanceStar_frame s)
  from endedWhenDue_doMassTransfer_star1 [OF i f n]
  show ?thesis
    by (simp add: endedWhenDue_def advanceTime_stars integrated_def drawStarAtWorld_star)
qed

lemma endedWhenDue_advanceTime_star2:
  assumes "binary st" "tTotalFromMass (star2 st)"
    and "massCurrent (star2 (advanceTime dtYears dtMs st)) \<le> massCurrent (star2 st)"
  shows "endedWhenDue (star2 (advanceTime dtYears dtMs st))"
proof -
  let ?a = "advanceStars dtYears dtMs (st\<lparr>t := t st + dtYears\<rparr>)"
  have s: "star2 ?a = advanceStar dtYears dtMs (star2 st)"
    using assms(1) by (simp add: advanceStars_stars)
  have i: "endedWhenDue (star2 ?a)" unfolding s by (rule endedWhenDue_advanceStar)
  have f: "tTotalFromMass (star2 ?a)"
    using assms(2) unfolding s by (simp add: tTotalFromMass_def advanceStar_frame)
  have n: "massCurrent (star2 (doMassTransfer dtYears ?a)) \<le> massCurrent (star2 ?a)"
    using assms(1,3) unfolding s
    by (simp add: advanceTime_stars integrated_def drawStarAtWorld_star advanceStar_frame s)
  from endedWhenDue_doMassTransfer_star2 [OF i f n]
  show ?thesis using assms(1)
    by (simp add: endedWhenDue_def advanceTime_stars integrated_def drawStarAtWorld_star)
qed

lemma tTotalFromMass_transferMass_kept:
  "tTotalFromMass d \<Longrightarrow> tTotalFromMass (fst (transferMass d a dm))"
  "tTotalFromMass a \<Longrightarrow> tTotalFromMass (snd (transferMass d a dm))"
proof -
  show "tTotalFromMass (fst (transferMass d a dm))" if "tTotalFromMass d"
  proof (cases "min dm (massCurrent d - 0.1) \<le> 0")
    case True
    then show ?thesis using that by (simp add: transferMass_zero)
  next
    case False
    then have "0 < min dm (massCurrent d - 0.1)" by linarith
    then show ?thesis by (rule tTotalFromMass_transferMass)
  qed
  show "tTotalFromMass (snd (transferMass d a dm))" if "tTotalFromMass a"
  proof (cases "min dm (massCurrent d - 0.1) \<le> 0")
    case True
    then show ?thesis using that by (simp add: transferMass_zero)
  next
    case False
    then have "0 < min dm (massCurrent d - 0.1)" by linarith
    then show ?thesis by (rule tTotalFromMass_transferMass)
  qed
qed

lemma tTotalFromMass_doMassTransfer:
  "tTotalFromMass (star1 st) \<Longrightarrow> tTotalFromMass (star1 (doMassTransfer dtYears st))"
  "tTotalFromMass (star2 st) \<Longrightarrow> tTotalFromMass (star2 (doMassTransfer dtYears st))"
  by (simp_all add: doMassTransfer_unfold tTotalFromMass_transferMass_kept)

lemma tTotalFromMass_frame:
  "tTotalFromMass (advanceStar dtYears dtMs s) = tTotalFromMass s"
  "tTotalFromMass (fst (drawStarAtWorld s exs)) = tTotalFromMass s"
  by (simp_all add: tTotalFromMass_def advanceStar_frame drawStarAtWorld_star)

lemma tTotalFromMass_advanceTime:
  "tTotalFromMass (star1 st) \<Longrightarrow> tTotalFromMass (star1 (advanceTime dtYears dtMs st))"
  "tTotalFromMass (star2 st) \<Longrightarrow> tTotalFromMass (star2 (advanceTime dtYears dtMs st))"
proof -
  let ?a = "advanceStars dtYears dtMs (st\<lparr>t := t st + dtYears\<rparr>)"
  assume "tTotalFromMass (star1 st)"
  then have "tTotalFromMass (star1 ?a)" by (simp add: advanceStars_stars tTotalFromMass_frame)
  then have "tTotalFromMass (star1 (doMassTransfer dtYears ?a))"
    by (rule tTotalFromMass_doMassTransfer)
  then show "tTotalFromMass (star1 (advanceTime dtYears dtMs st))"
    by (simp add: advanceTime_stars integrated_def tTotalFromMass_frame)
next
  let ?a = "advanceStars dtYears dtMs (st\<lparr>t := t st + dtYears\<rparr>)"
  assume "tTotalFromMass (star2 st)"
  then have "tTotalFromMass (star2 ?a)" by (simp add: advanceStars_stars tTotalFromMass_frame)
  then have "tTotalFromMass (star2 (doMassTransfer dtYears ?a))"
    by (rule tTotalFromMass_doMassTransfer)
  then show "tTotalFromMass (star2 (advanceTime dtYears dtMs st))"
    by (simp add: advanceTime_def updateUI_def drawStars_stars updateExplosions_frame
        doMassTransfer_frame advanceStars_frame tTotalFromMass_frame)
qed

lemma setSimulationAge_age:
  "age (star1 (setSimulationAge ageYears st)) = clamp ageYears 0 (tTotal (star1 st))"
  "binary st \<Longrightarrow>
     age (star2 (setSimulationAge ageYears st)) = clamp ageYears 0 (tTotal (star2 st))"
  "tTotal (star1 (setSimulationAge ageYears st)) = tTotal (star1 st)"
  "tTotal (star2 (setSimulationAge ageYears st)) = tTotal (star2 st)"
  by (cases "binary st"; simp add: setSimulationAge_stars drawStarAtWorld_star)+

text \<open>
  Claim C7 says that no public operation leaves a star with \<open>age = tTotal\<close> and
  \<open>ended = false\<close>. \<open>setSimulationAge\<close> does: on the initial state, set to the total
  lifetime of the primary star, it leaves the primary with \<open>age = tTotal\<close> and not ended.
\<close>

theorem setSimulationAge_counterexample:
  "age (star1 (setSimulationAge 11100000000 initialState))
     = tTotal (star1 (setSimulationAge 11100000000 initialState)) \<and>
   \<not> ended (star1 (setSimulationAge 11100000000 initialState))"
  by (simp add: setSimulationAge_stars drawStarAtWorld_star initialState_def makeStar_one
      clamp_def)

text \<open>
  Claim C7, amended. A star built by \<open>makeStar\<close> has \<open>age < tTotal\<close> and has not ended.
  At the return of every complete step of \<open>advanceTime\<close>, a star that took part in the
  step (the primary, and the secondary of a binary) and gained no mass in it has ended
  if its age is at or beyond \<open>tTotal\<close>; the star's \<open>tTotal\<close> is taken to be the one
  computed from its current mass, as \<open>makeStar\<close> and every transfer write it and every
  step keeps it. \<open>setSimulationAge\<close> assigns the age clamped to [0, tTotal] and leaves
  \<open>ended\<close> and \<open>tTotal\<close> as they were, and a mass transfer leaves \<open>age\<close> and \<open>ended\<close>
  as they were while it recomputes \<open>tTotal\<close> from the new masses: these are the two ways
  to a star with \<open>age\<close> at or beyond \<open>tTotal\<close> that has not ended.
\<close>

theorem ended_after_advance:
  "(age (makeStar m) < tTotal (makeStar m) \<and> \<not> ended (makeStar m) \<and>
    tTotalFromMass (makeStar m)) \<and>
   (tTotalFromMass (star1 st) \<and>
    massCurrent (star1 (advanceTime dtYears dtMs st)) \<le> massCurrent (star1 st) \<and>
    tTotal (star1 (advanceTime dtYears dtMs st)) \<le> age (star1 (advanceTime dtYears dtMs st))
      \<longrightarrow> ended (star1 (advanceTime dtYears dtMs st))) \<and>
   (binary st \<and> tTotalFromMass (star2 st) \<and>
    massCurrent (star2 (advanceTime dtYears dtMs st)) \<le> massCurrent (star2 st) \<and>
    tTotal (star2 (advanceTime dtYears dtMs st)) \<le> age (star2 (advanceTime dtYears dtMs st))
      \<longrightarrow> ended (star2 (advanceTime dtYears dtMs st))) \<and>
   (tTotalFromMass (star1 st) \<longrightarrow> tTotalFromMass (star1 (advanceTime dtYears dtMs st))) \<and>
   (tTotalFromMass (star2 st) \<longrightarrow> tTotalFromMass (star2 (advanceTime dtYears dtMs st))) \<and>
   age (star1 (setSimulationAge ageYears st)) = clamp ageYears 0 (tTotal (star1 st)) \<and>
   (binary st \<longrightarrow>
      age (star2 (setSimulationAge ageYears st)) = clamp ageYears 0 (tTotal (star2 st))) \<and>
   ended (star1 (setSimulationAge ageYears st)) = ended (star1 st) \<and>
   ended (star2 (setSimulationAge ageYears st)) = ended (star2 st) \<and>
   tTotal (star1 (setSimulationAge ageYears st)) = tTotal (star1 st) \<and>
   tTotal (star2 (setSimulationAge ageYears st)) = tTotal (star2 st) \<and>
   age (star1 (doMassTransfer dtYears st)) = age (star1 st) \<and>
   age (star2 (doMassTransfer dtYears st)) = age (star2 st) \<and>
   ended (star1 (doMassTransfer dtYears st)) = ended (star1 st) \<and>
   ended (star2 (doMassTransfer dtYears st)) = ended (star2 st) \<and>
   (0 < min dm (massCurrent d - 0.1) \<longrightarrow>
      tTotalFromMass (fst (transferMass d a dm)) \<and>
      tTotalFromMass (snd (transferMass d a dm)) \<and>
      massCurrent (fst (transferMass d a dm)) = massCurrent d - min dm (massCurrent d - 0.1) \<and>
      massCurrent (snd (transferMass d a dm)) = massCurrent a + min dm (massCurrent d - 0.1))"
proof -
  have mk: "age (makeStar m) < tTotal (makeStar m) \<and> \<not> ended (makeStar m) \<and>
    tTotalFromMass (makeStar m)"
    using makeStar_times_pos(4) [of m] by (simp add: makeStar_fields tTotalFromMass_makeStar)
  have a1: "tTotalFromMass (star1 st) \<and>
    massCurrent (star1 (advanceTime dtYears dtMs st)) \<le> massCurrent (star1 st) \<and>
    tTotal (star1 (advanceTime dtYears dtMs st)) \<le> age (star1 (advanceTime dtYears dtMs st))
      \<longrightarrow> ended (star1 (advanceTime dtYears dtMs st))"
    using endedWhenDue_advanceTime_star1 [of st dtYears dtMs]
    by (simp add: endedWhenDue_def)
  have a2: "binary st \<and> tTotalFromMass (star2 st) \<and>
    massCurrent (star2 (advanceTime dtYears dtMs st)) \<le> massCurrent (star2 st) \<and>
    tTotal (star2 (advanceTime dtYears dtMs st)) \<le> age (star2 (advanceTime dtYears dtMs st))
      \<longrightarrow> ended (star2 (advanceTime dtYears dtMs st))"
    using endedWhenDue_advanceTime_star2 [of st dtYears dtMs]
    by (simp add: endedWhenDue_def)
  have k: "(tTotalFromMass (star1 st) \<longrightarrow> tTotalFromMass (star1 (advanceTime dtYears dtMs st))) \<and>
    (tTotalFromMass (star2 st) \<longrightarrow> tTotalFromMass (star2 (advanceTime dtYears dtMs st)))"
    by (simp add: tTotalFromMass_advanceTime)
  have sa: "age (star1 (setSimulationAge ageYears st)) = clamp ageYears 0 (tTotal (star1 st)) \<and>
    (binary st \<longrightarrow>
      age (star2 (setSimulationAge ageYears st)) = clamp ageYears 0 (tTotal (star2 st))) \<and>
    ended (star1 (setSimulationAge ageYears st)) = ended (star1 st) \<and>
    ended (star2 (setSimulationAge ageYears st)) = ended (star2 st) \<and>
    tTotal (star1 (setSimulationAge ageYears st)) = tTotal (star1 st) \<and>
    tTotal (star2 (setSimulationAge ageYears st)) = tTotal (star2 st)"
    by (simp add: setSimulationAge_age setSimulationAge_ended)
  have mt: "age (star1 (doMassTransfer dtYears st)) = age (star1 st) \<and>
    age (star2 (doMassTransfer dtYears st)) = age (star2 st) \<and>
    ended (star1 (doMassTransfer dtYears st)) = ended (star1 st) \<and>
    ended (star2 (doMassTransfer dtYears st)) = ended (star2 st)"
    by (simp add: doMassTransfer_age_ended)
  have tm: "0 < min dm (massCurrent d - 0.1) \<longrightarrow>
      tTotalFromMass (fst (transferMass d a dm)) \<and>
      tTotalFromMass (snd (transferMass d a dm)) \<and>
      massCurrent (fst (transferMass d a dm)) = massCurrent d - min dm (massCurrent d - 0.1) \<and>
      massCurrent (snd (transferMass d a dm)) = massCurrent a + min dm (massCurrent d - 0.1)"
    using tTotalFromMass_transferMass [of dm d a] transferMass_masses(1,2) [of dm d a]
    by blast
  from mk a1 a2 k sa mt tm show ?thesis by blast
qed

theorem ended_after_advance_witness:
  "tTotalFromMass (star1 initialState) \<and>
   massCurrent (star1 (advanceTime 20000000000 16 initialState))
     \<le> massCurrent (star1 initialState) \<and>
   tTotal (star1 (advanceTime 20000000000 16 initialState))
     \<le> age (star1 (advanceTime 20000000000 16 initialState)) \<and>
   ended (star1 (advanceTime 20000000000 16 initialState)) \<and>
   binary rlofState \<and> tTotalFromMass (star2 rlofState) \<and>
   massCurrent (star2 (advanceTime 20000000000 16 rlofState)) \<le> massCurrent (star2 rlofState) \<and>
   tTotal (star2 (advanceTime 20000000000 16 rlofState))
     \<le> age (star2 (advanceTime 20000000000 16 rlofState)) \<and>
   ended (star2 (advanceTime 20000000000 16 rlofState)) \<and>
   tTotalFromMass (star1 (advanceTime 20000000000 16 initialState)) \<and>
   age (star1 (setSimulationAge 11100000000 initialState)) = 11100000000 \<and>
   0 < min 1 (massCurrent (makeStar 3) - 0.1) \<and>
   tTotalFromMass (snd (transferMass (makeStar 3) (makeStar 1) 1)) \<and>
   massCurrent (snd (transferMass (makeStar 3) (makeStar 1) 1)) = 2"
proof -
  have v: "star1 initialState = makeStar 1" by (simp add: initialState_def)
  have w: "star2 rlofState = makeStar 1" by (rule rlofState_fields)
  have b: "binary rlofState" by (rule rlofState_fields)
  have f: "tTotalFromMass (star1 initialState)" "tTotalFromMass (star2 rlofState)"
    unfolding v w by (rule tTotalFromMass_makeStar)+
  have h: "\<not> ended (makeStar 1)" "tTotal (makeStar 1) - age (makeStar 1) \<le> 20000000000"
    by (simp_all add: makeStar_one)
  have p1: "star1 (advanceTime 20000000000 16 initialState) =
      fst (drawStarAtWorld ((makeStar 1)\<lparr>age := tTotal (makeStar 1), ended := True,
        collapseAnimating := True, collapseProgress := 0, justEnded := True\<rparr>)
        (explosions (updateExplosions 16 (integrated 20000000000 16 initialState))))"
    using star1_end_step [of initialState 20000000000 16] h
    by (simp add: advanceTime_stars v)
  have p2: "star2 (advanceTime 20000000000 16 rlofState) =
      fst (drawStarAtWorld ((makeStar 1)\<lparr>age := tTotal (makeStar 1), ended := True,
        collapseAnimating := True, collapseProgress := 0, justEnded := True\<rparr>)
        (snd (drawStarAtWorld (star1 (integrated 20000000000 16 rlofState))
          (explosions (updateExplosions 16 (integrated 20000000000 16 rlofState))))))"
    using star2_end_step [of rlofState 20000000000 16] h b
    by (simp add: advanceTime_stars w)
  have c1: "massCurrent (star1 (advanceTime 20000000000 16 initialState))
       \<le> massCurrent (star1 initialState) \<and>
     tTotal (star1 (advanceTime 20000000000 16 initialState))
       \<le> age (star1 (advanceTime 20000000000 16 initialState))"
    unfolding p1 v by (simp add: drawStarAtWorld_star)
  have c2: "massCurrent (star2 (advanceTime 20000000000 16 rlofState))
       \<le> massCurrent (star2 rlofState) \<and>
     tTotal (star2 (advanceTime 20000000000 16 rlofState))
       \<le> age (star2 (advanceTime 20000000000 16 rlofState))"
    unfolding p2 w by (simp add: drawStarAtWorld_star)
  have g: "0 < min 1 (massCurrent (makeStar 3) - 0.1)"
    by (simp add: makeStar_fields clamp_def)
  have tt: "clamp 11100000000 0 (tTotal (star1 initialState)) = 11100000000"
    by (simp add: v makeStar_one clamp_def)
  have m2: "massCurrent (makeStar 1) + min 1 (massCurrent (makeStar 3) - 0.1) = 2"
    by (simp add: makeStar_fields clamp_def)
  note i = ended_after_advance [where st = initialState and dtYears = 20000000000 and dtMs = 16
      and ageYears = 11100000000 and dm = 1 and d = "makeStar 3" and a = "makeStar 1"]
  note r = ended_after_advance [where st = rlofState and dtYears = 20000000000 and dtMs = 16]
  from i f c1 have e1: "ended (star1 (advanceTime 20000000000 16 initialState)) \<and>
    tTotalFromMass (star1 (advanceTime 20000000000 16 initialState))"
    by blast
  from r b f c2 have e2: "ended (star2 (advanceTime 20000000000 16 rlofState))"
    by blast
  from i have s: "age (star1 (setSimulationAge 11100000000 initialState)) = 11100000000"
    unfolding tt by blast
  from i g have x: "tTotalFromMass (snd (transferMass (makeStar 3) (makeStar 1) 1)) \<and>
    massCurrent (snd (transferMass (makeStar 3) (makeStar 1) 1)) = 2"
    unfolding m2 [symmetric] by blast
  from f b c1 c2 e1 e2 s g x show ?thesis by blast
qed

section \<open>Clamped inputs\<close>

lemma clamp_cases:
  assumes "lo \<le> hi"
  shows "clamp v lo hi = (if v < lo then lo else if hi < v then hi else v)"
  using assms by (simp add: clamp_def)

lemma makeStar_mass_range:
  "0.1 \<le> massInitial (makeStar x)" "massInitial (makeStar x) \<le> 50"
  "0.1 \<le> massCurrent (makeStar x)" "massCurrent (makeStar x) \<le> 50"
  by (simp_all add: makeStar_fields clamp_def)

lemma applySep_fields:
  "separationAU (applySep x st) = clamp x 0.01 10"
  "transferRatePerYear (applySep x st) = transferRatePerYear st"
  "massCurrent (star1 (applySep x st)) = massCurrent (star1 st)"
  "massCurrent (star2 (applySep x st)) = massCurrent (star2 st)"
  by (simp_all add: applySep_def updateUI_def drawStars_frame drawStars_stars
      drawStarAtWorld_star)

lemma applyRate_fields:
  "transferRatePerYear (applyRate x st) = clamp x 0 0.2 / MYR"
  "separationAU (applyRate x st) = separationAU st"
  "star1 (applyRate x st) = star1 st"
  "star2 (applyRate x st) = star2 st"
  by (simp_all add: applyRate_def)

lemma transferMass_positive:
  assumes "0 < massCurrent d" "0 < massCurrent a"
  shows "0 < massCurrent (fst (transferMass d a dm))"
    and "0 < massCurrent (snd (transferMass d a dm))"
proof -
  show "0 < massCurrent (fst (transferMass d a dm))"
  proof (cases "min dm (massCurrent d - 0.1) \<le> 0")
    case True
    then show ?thesis using assms by (simp add: transferMass_zero)
  next
    case False
    then have "0 < min dm (massCurrent d - 0.1)" by linarith
    then show ?thesis by (rule transferMass_masses)
  qed
  show "0 < massCurrent (snd (transferMass d a dm))"
  proof (cases "min dm (massCurrent d - 0.1) \<le> 0")
    case True
    then show ?thesis using assms by (simp add: transferMass_zero)
  next
    case False
    then have p: "0 < min dm (massCurrent d - 0.1)" by linarith
    show ?thesis unfolding transferMass_masses(2) [OF p] using p assms(2) by linarith
  qed
qed

lemma doMassTransfer_positive:
  assumes "0 < massCurrent (star1 st)" "0 < massCurrent (star2 st)"
  shows "0 < massCurrent (star1 (doMassTransfer dtYears st))"
    and "0 < massCurrent (star2 (doMassTransfer dtYears st))"
  using assms transferMass_positive [of "star1 st" "star2 st"]
    transferMass_positive [of "star2 st" "star1 st"]
  by (simp_all add: doMassTransfer_unfold)

lemma advanceTime_positive:
  assumes "0 < massCurrent (star1 st)" "0 < massCurrent (star2 st)"
  shows "0 < massCurrent (star1 (advanceTime dtYears dtMs st))"
    and "0 < massCurrent (star2 (advanceTime dtYears dtMs st))"
proof -
  let ?a = "advanceStars dtYears dtMs (st\<lparr>t := t st + dtYears\<rparr>)"
  have a: "0 < massCurrent (star1 ?a)" "0 < massCurrent (star2 ?a)"
    using assms by (simp_all add: advanceStars_stars advanceStar_frame)
  note m = doMassTransfer_positive [OF a, of dtYears]
  from m show "0 < massCurrent (star1 (advanceTime dtYears dtMs st))"
    by (simp add: advanceTime_def updateUI_def drawStars_stars drawStarAtWorld_star
        updateExplosions_frame)
  from m show "0 < massCurrent (star2 (advanceTime dtYears dtMs st))"
    by (simp add: advanceTime_def updateUI_def drawStars_stars drawStarAtWorld_star
        updateExplosions_frame)
qed

lemma advanceTime_controls:
  "separationAU (advanceTime dtYears dtMs st) = separationAU st"
  "transferRatePerYear (advanceTime dtYears dtMs st) = transferRatePerYear st"
  by (simp_all add: advanceTime_def updateUI_def drawStars_frame updateExplosions_frame
      doMassTransfer_frame advanceStars_frame)

lemma setSimulationAge_fields:
  "separationAU (setSimulationAge ageYears st) = separationAU st"
  "transferRatePerYear (setSimulationAge ageYears st) = transferRatePerYear st"
  "massCurrent (star1 (setSimulationAge ageYears st)) = massCurrent (star1 st)"
  "massCurrent (star2 (setSimulationAge ageYears st)) = massCurrent (star2 st)"
  by (cases "binary st";
      simp add: setSimulationAge_def Let_def updateUI_def drawStars_frame drawStars_stars
        drawStarAtWorld_star)+

lemma inDomain_initialState: "inDomain initialState"
  by (simp add: inDomain_def initialState_def makeStar_fields clamp_def MYR_def YEAR_def)

lemma inDomain_preserved:
  assumes "inDomain st"
  shows "inDomain (applySep x st)" "inDomain (applyRate x st)"
    "inDomain (st\<lparr>star1 := makeStar x\<rparr>)" "inDomain (st\<lparr>star2 := makeStar x\<rparr>)"
    "inDomain (advanceTime dtYears dtMs st)" "inDomain (setSimulationAge x st)"
proof -
  show "inDomain (applySep x st)"
    using assms by (simp add: inDomain_def applySep_fields clamp_def)
  show "inDomain (applyRate x st)"
    using assms by (simp add: inDomain_def applyRate_fields clamp_def MYR_def YEAR_def)
  have "0 < massCurrent (makeStar x)" using makeStar_mass_range(3) [of x] by simp
  then show "inDomain (st\<lparr>star1 := makeStar x\<rparr>)" "inDomain (st\<lparr>star2 := makeStar x\<rparr>)"
    using assms by (simp_all add: inDomain_def)
  show "inDomain (advanceTime dtYears dtMs st)"
    using assms advanceTime_positive [of st dtYears dtMs]
    by (simp add: inDomain_def advanceTime_controls)
  show "inDomain (setSimulationAge x st)"
    using assms by (simp add: inDomain_def setSimulationAge_fields)
qed

lemma resetStarTimes_pos:
  assumes "0 < massCurrent s"
  shows "0 < tMS (resetStarTimes s)" "0 < tTotal (resetStarTimes s)"
proof -
  from assms have p: "0 < msLifetimeYears (massCurrent s)" by (rule msLifetimeYears_pos)
  from p show "0 < tMS (resetStarTimes s)" by (simp add: resetStarTimes_fields)
  from p show "0 < tTotal (resetStarTimes s)" by (simp add: resetStarTimes_fields)
qed

text \<open>
  Claim C9. Every numeric input is clamped where it enters the state: \<open>makeStar\<close> stores
  the mass clamped to [0.1, 50], \<open>applySep\<close> the separation clamped to [0.01, 10],
  \<open>applyRate\<close> the transfer rate clamped to [0, 0.2] per million years, each the input
  itself when it is in the range and the nearer bound otherwise; \<open>rocheLobeRadiusAU\<close>
  is the Eggleton expression at the mass ratio clamped to [0.001, 1000], where the cube
  root is positive, the argument of the logarithm positive and the divisor positive; and
  \<open>setSimulationAge\<close> stores the age clamped to [0, tTotal]. The initial state is in the
  domain \<open>inDomain\<close> and every operation keeps the state there, so every division by a
  mass has a positive divisor, the power law of \<open>msLifetimeYears\<close> always has a positive
  base and every duration is positive. No function of the model has an error result.
\<close>

theorem inputs_clamped:
  "(massInitial (makeStar x) = (if x < 0.1 then 0.1 else if 50 < x then 50 else x) \<and>
    massCurrent (makeStar x) = massInitial (makeStar x) \<and>
    0.1 \<le> massInitial (makeStar x) \<and> massInitial (makeStar x) \<le> 50) \<and>
   (separationAU (applySep x st) = (if x < 0.01 then 0.01 else if 10 < x then 10 else x) \<and>
    0.01 \<le> separationAU (applySep x st) \<and> separationAU (applySep x st) \<le> 10) \<and>
   (transferRatePerYear (applyRate x st)
      = (if x < 0 then 0 else if 0.2 < x then 0.2 else x) / MYR \<and>
    0 \<le> transferRatePerYear (applyRate x st) \<and>
    transferRatePerYear (applyRate x st) \<le> 0.2 / MYR) \<and>
   (let r = mDonor / mAccretor;
        q = (if r < 0.001 then 0.001 else if 1000 < r then 1000 else r);
        q13 = root 3 q
    in rocheLobeRadiusAU mDonor mAccretor sepAU
         = 0.49 * (q13 * q13) / (0.6 * (q13 * q13) + ln (1 + q13)) * sepAU \<and>
       0.001 \<le> q \<and> q \<le> 1000 \<and> 0 < q13 \<and> 0 < 1 + q13 \<and>
       0 < 0.6 * (q13 * q13) + ln (1 + q13)) \<and>
   inDomain initialState \<and>
   (inDomain st \<longrightarrow>
      inDomain (applySep x st) \<and> inDomain (applyRate x st) \<and>
      inDomain (st\<lparr>star1 := makeStar x\<rparr>) \<and> inDomain (st\<lparr>star2 := makeStar x\<rparr>) \<and>
      inDomain (advanceTime dtYears dtMs st) \<and> inDomain (setSimulationAge x st)) \<and>
   (0 < tMS (makeStar x) \<and> 0 < tTotal (makeStar x)) \<and>
   (0 < massCurrent s \<longrightarrow> 0 < tMS (resetStarTimes s) \<and> 0 < tTotal (resetStarTimes s)) \<and>
   (0 \<le> tTotal (star1 st) \<longrightarrow>
      age (star1 (setSimulationAge x st))
        = (if x < 0 then 0 else if tTotal (star1 st) < x then tTotal (star1 st) else x) \<and>
      0 \<le> age (star1 (setSimulationAge x st)) \<and>
      age (star1 (setSimulationAge x st)) \<le> tTotal (star1 st))"
proof -
  have a: "massInitial (makeStar x) = (if x < 0.1 then 0.1 else if 50 < x then 50 else x) \<and>
    massCurrent (makeStar x) = massInitial (makeStar x) \<and>
    0.1 \<le> massInitial (makeStar x) \<and> massInitial (makeStar x) \<le> 50"
    using makeStar_mass_range [of x] by (simp add: makeStar_fields clamp_cases)
  have b: "separationAU (applySep x st) = (if x < 0.01 then 0.01 else if 10 < x then 10 else x) \<and>
    0.01 \<le> separationAU (applySep x st) \<and> separationAU (applySep x st) \<le> 10"
    by (simp add: applySep_fields clamp_cases)
  have c: "transferRatePerYear (applyRate x st)
      = (if x < 0 then 0 else if 0.2 < x then 0.2 else x) / MYR \<and>
    0 \<le> transferRatePerYear (applyRate x st) \<and>
    transferRatePerYear (applyRate x st) \<le> 0.2 / MYR"
    by (simp add: applyRate_fields clamp_cases MYR_def YEAR_def)
  let ?q = "clamp (mDonor / mAccretor) 0.001 1000"
  have qc: "?q = (if mDonor / mAccretor < 0.001 then 0.001
      else if 1000 < mDonor / mAccretor then 1000 else mDonor / mAccretor)"
    by (rule clamp_cases) simp
  have q: "0.001 \<le> ?q" "?q \<le> 1000"
    by (rule clamp_bounds, simp)+
  note r = roche_q13_pos [of mDonor mAccretor]
  from r have r1: "0 < 1 + root 3 ?q" by linarith
  note e = eggleton_fraction_bounds(1) [OF r]
  from q r r1 e rocheLobeRadiusAU_unfold [of mDonor mAccretor sepAU]
  have "rocheLobeRadiusAU mDonor mAccretor sepAU
         = 0.49 * (root 3 ?q * root 3 ?q) / (0.6 * (root 3 ?q * root 3 ?q) + ln (1 + root 3 ?q))
           * sepAU \<and>
       0.001 \<le> ?q \<and> ?q \<le> 1000 \<and> 0 < root 3 ?q \<and> 0 < 1 + root 3 ?q \<and>
       0 < 0.6 * (root 3 ?q * root 3 ?q) + ln (1 + root 3 ?q)"
    by blast
  then have d: "let r = mDonor / mAccretor;
        q = (if r < 0.001 then 0.001 else if 1000 < r then 1000 else r);
        q13 = root 3 q
    in rocheLobeRadiusAU mDonor mAccretor sepAU
         = 0.49 * (q13 * q13) / (0.6 * (q13 * q13) + ln (1 + q13)) * sepAU \<and>
       0.001 \<le> q \<and> q \<le> 1000 \<and> 0 < q13 \<and> 0 < 1 + q13 \<and>
       0 < 0.6 * (q13 * q13) + ln (1 + q13)"
    unfolding Let_def qc .
  have f: "inDomain st \<longrightarrow>
      inDomain (applySep x st) \<and> inDomain (applyRate x st) \<and>
      inDomain (st\<lparr>star1 := makeStar x\<rparr>) \<and> inDomain (st\<lparr>star2 := makeStar x\<rparr>) \<and>
      inDomain (advanceTime dtYears dtMs st) \<and> inDomain (setSimulationAge x st)"
    by (intro impI conjI) (erule inDomain_preserved)+
  have g: "0 < tMS (makeStar x) \<and> 0 < tTotal (makeStar x)"
    by (simp add: makeStar_times_pos)
  have h: "0 < massCurrent s \<longrightarrow>
      0 < tMS (resetStarTimes s) \<and> 0 < tTotal (resetStarTimes s)"
    by (intro impI conjI) (erule resetStarTimes_pos)+
  have k: "0 \<le> tTotal (star1 st) \<longrightarrow>
      age (star1 (setSimulationAge x st))
        = (if x < 0 then 0 else if tTotal (star1 st) < x then tTotal (star1 st) else x) \<and>
      0 \<le> age (star1 (setSimulationAge x st)) \<and>
      age (star1 (setSimulationAge x st)) \<le> tTotal (star1 st)"
    by (simp add: setSimulationAge_age clamp_def)
  from a b c d inDomain_initialState f g h k
  show ?thesis by blast
qed

theorem inputs_clamped_witness:
  "massInitial (makeStar 100) = 50 \<and> massInitial (makeStar 0) = 0.1 \<and>
   massInitial (makeStar 7) = 7 \<and>
   separationAU (applySep 50 initialState) = 10 \<and>
   separationAU (applySep 0 initialState) = 0.01 \<and>
   separationAU (applySep 2 initialState) = 2 \<and>
   transferRatePerYear (applyRate 3 initialState) = 0.2 / MYR \<and>
   transferRatePerYear (applyRate (-1) initialState) = 0 \<and>
   rocheLobeRadiusAU 5000 1 2 = rocheLobeRadiusAU 1000 1 2 \<and>
   inDomain initialState \<and>
   inDomain (applySep 50 initialState) \<and> inDomain (applyRate 3 initialState) \<and>
   inDomain (advanceTime 1000 16 initialState) \<and>
   0 < massCurrent (makeStar 100) \<and>
   0 < tMS (resetStarTimes (makeStar 100)) \<and>
   0 \<le> tTotal (star1 initialState) \<and>
   age (star1 (setSimulationAge 50 initialState)) = 50 \<and>
   age (star1 (setSimulationAge (-5) initialState)) = 0"
proof -
  note w = inputs_clamped [where st = initialState and s = "makeStar 100"
      and dtYears = 1000 and dtMs = 16 and sepAU = 2 and mAccretor = 1]
  from w [where x = 100] w [where x = 0] w [where x = 7]
  have v1: "massInitial (makeStar 100) = 50 \<and> massInitial (makeStar 0) = 0.1 \<and>
    massInitial (makeStar 7) = 7"
    by simp
  from w [where x = 50] w [where x = 0] w [where x = 2]
  have v2: "separationAU (applySep 50 initialState) = 10 \<and>
    separationAU (applySep 0 initialState) = 0.01 \<and>
    separationAU (applySep 2 initialState) = 2"
    by simp
  from w [where x = 3] w [where x = "-1"]
  have v3: "transferRatePerYear (applyRate 3 initialState) = 0.2 / MYR \<and>
    transferRatePerYear (applyRate (-1) initialState) = 0"
    by simp
  from w [where x = 0 and mDonor = 5000] w [where x = 0 and mDonor = 1000]
  have v4: "rocheLobeRadiusAU 5000 1 2 = rocheLobeRadiusAU 1000 1 2"
    unfolding Let_def by simp
  from w [where x = 100] have m: "0 < massCurrent (makeStar 100)" by simp
  from m w [where x = 100] have p: "0 < tMS (resetStarTimes (makeStar 100))" by blast
  from w have i: "inDomain initialState" by blast
  from i w [where x = 50] have s: "inDomain (applySep 50 initialState)" by blast
  from i w [where x = 3] have r: "inDomain (applyRate 3 initialState)" by blast
  from i w [where x = 3] have t: "inDomain (advanceTime 1000 16 initialState)" by blast
  have n: "0 \<le> tTotal (star1 initialState)"
    by (simp add: initialState_def makeStar_one)
  have tt: "tTotal (star1 initialState) = 11100000000"
    by (simp add: initialState_def makeStar_one)
  from n w [where x = 50] w [where x = "-5"]
  have a: "age (star1 (setSimulationAge 50 initialState)) = 50 \<and>
    age (star1 (setSimulationAge (-5) initialState)) = 0"
    unfolding tt by simp
  from v1 v2 v3 v4 m p i s r t n a show ?thesis by blast
qed

section \<open>The donor floor\<close>

text \<open>
  A step that takes the donor to the cap. In \<open>rlofState\<close> with the transfer rate set to
  its maximum of 0.2 solar masses per million years, a step of 40 million years ends
  neither star (the primary of 8 solar masses lives for more than 40 million years), the
  primary overfills its Roche lobe and the secondary does not, and the amount
  \<open>transferRatePerYear * dtYears\<close> is 8, above the cap of 7.9. Over the real numbers the
  step leaves the donor at 0.1 exactly.
\<close>

lemma doMassTransfer_to_cap:
  assumes "binary st" "\<not> ended (star1 st)" "\<not> ended (star2 st)"
    and "massCurrent (star1 st) = 8" "massCurrent (star2 st) = 1"
    and "separationAU st = 0.03" "transferRatePerYear st * dtYears = 8"
  shows "massCurrent (star1 (doMassTransfer dtYears st)) = 0.1"
    and "massCurrent (star2 (doMassTransfer dtYears st)) = 8.9"
    and "ended (star1 (doMassTransfer dtYears st)) = ended (star1 st)"
proof -
  define dm where "dm = transferRatePerYear st * dtYears"
  have r: "dm = 8" unfolding dm_def by (rule assms(7))
  note m = assms(4,5)
  have "rocheLobeRadiusAU 8 1 0.03 < stellarRadiusAU (radiusRsun 8)"
    using radius_8 roche_8_1 by linarith
  then have o1: "overfills (star1 st) (star2 st) (separationAU st)"
    unfolding overfills_def m assms(6) by simp
  have "\<not> rocheLobeRadiusAU 1 8 0.03 < stellarRadiusAU (radiusRsun 1)"
    using roche_1_8 unfolding radius_1 by linarith
  then have o2: "\<not> overfills (star2 st) (star1 st) (separationAU st)"
    unfolding overfills_def m assms(6) by simp
  have c: "min dm (massCurrent (star1 st) - 0.1) = 79 / 10"
    unfolding r m by simp
  have h: "0 < min dm (massCurrent (star1 st) - 0.1)"
    unfolding c by simp
  have x: "massCurrent (fst (transferMass (star1 st) (star2 st) dm)) = 0.1"
    unfolding transferMass_masses(1) [OF h] c by (simp add: m)
  have y: "massCurrent (snd (transferMass (star1 st) (star2 st) dm)) = 8.9"
    unfolding transferMass_masses(2) [OF h] c by (simp add: m)
  have d: "doMassTransfer dtYears st =
    st\<lparr>star1 := fst (transferMass (star1 st) (star2 st) dm),
       star2 := snd (transferMass (star1 st) (star2 st) dm)\<rparr>"
    unfolding dm_def by (rule doMassTransfer_donor1 [OF assms(1-3) o1 o2])
  show "massCurrent (star1 (doMassTransfer dtYears st)) = 0.1"
    unfolding d using x by simp
  show "massCurrent (star2 (doMassTransfer dtYears st)) = 8.9"
    unfolding d using y by simp
  show "ended (star1 (doMassTransfer dtYears st)) = ended (star1 st)"
    by (rule doMassTransfer_age_ended)
qed

lemma tTotal_makeStar_8_lower: "40000000 < tTotal (makeStar 8)"
proof -
  have "(8::real) powr 2.5 * 8 powr 2.5 = 8 powr 5"
    by (simp add: powr_add [symmetric])
  also have "\<dots> = 32768" by simp
  finally have p: "(8::real) powr 2.5 * 8 powr 2.5 = 32768" .
  have u: "(8::real) powr 2.5 \<le> 192"
  proof (rule ccontr)
    assume "\<not> (8::real) powr 2.5 \<le> 192"
    then have g: "192 < (8::real) powr 2.5" by simp
    then have "192 * 192 < (8::real) powr 2.5 * 8 powr 2.5"
      by (intro mult_strict_mono) simp_all
    with p show False by simp
  qed
  have q: "0 < (8::real) powr 2.5" by simp
  have i: "(8::real) powr (-2.5) = 1 / 8 powr 2.5"
    by (rule powr_minus_divide)
  from u q have "1 / 192 \<le> 1 / (8::real) powr 2.5"
    by (intro divide_left_mono) simp_all
  then have "1 / 192 \<le> (8::real) powr (-2.5)" unfolding i .
  then have "40000000 < msLifetimeYears 8"
    by (simp add: msLifetimeYears_def GYR_def YEAR_def)
  then show ?thesis by (simp add: makeStar_def Let_def clamp_def)
qed

lemma advanceStar_young:
  assumes "\<not> ended s" "age s + dtYears < tTotal s"
  shows "advanceStar dtYears dtMs s = s\<lparr>age := age s + dtYears\<rparr>"
  using assms by (simp add: advanceStar_def Let_def)

lemma advanceTime_to_cap:
  "massCurrent (star1 (advanceTime 40000000 16 (applyRate 0.2 rlofState))) = 0.1 \<and>
   massCurrent (star2 (advanceTime 40000000 16 (applyRate 0.2 rlofState))) = 8.9 \<and>
   \<not> ended (star1 (advanceTime 40000000 16 (applyRate 0.2 rlofState)))"
proof -
  define st where "st = applyRate 0.2 rlofState"
  define a where "a = advanceStars 40000000 16 (st\<lparr>t := t st + 40000000\<rparr>)"
  have f: "binary st" "separationAU st = 0.03"
    "star1 st = makeStar 8" "star2 st = makeStar 1"
    using rlofState_fields by (simp_all add: st_def applyRate_def)
  have r: "transferRatePerYear st * 40000000 = 8"
    by (simp add: st_def applyRate_def clamp_def MYR_def YEAR_def)
  have s1: "star1 a = (makeStar 8)\<lparr>age := age (makeStar 8) + 40000000\<rparr>"
    unfolding a_def using tTotal_makeStar_8_lower
    by (simp add: advanceStars_stars f advanceStar_young makeStar_fields)
  have s2: "star2 a = (makeStar 1)\<lparr>age := age (makeStar 1) + 40000000\<rparr>"
    unfolding a_def
    by (simp add: advanceStars_stars f advanceStar_young makeStar_one)
  have b: "binary a" "separationAU a = 0.03" "transferRatePerYear a * 40000000 = 8"
    unfolding a_def using f r by (simp_all add: advanceStars_frame)
  have e: "\<not> ended (star1 a)" "\<not> ended (star2 a)"
    unfolding s1 s2 by (simp_all add: makeStar_fields)
  have m: "massCurrent (star1 a) = 8" "massCurrent (star2 a) = 1"
    unfolding s1 s2 by (simp_all add: makeStar_fields clamp_def)
  note d = doMassTransfer_to_cap [OF b(1) e m b(2,3)]
  have i: "integrated 40000000 16 st = doMassTransfer 40000000 a"
    by (simp add: integrated_def a_def)
  have "massCurrent (star1 (advanceTime 40000000 16 st)) = 0.1 \<and>
   massCurrent (star2 (advanceTime 40000000 16 st)) = 8.9 \<and>
   \<not> ended (star1 (advanceTime 40000000 16 st))"
    using d e f(1) by (simp add: advanceTime_stars drawStarAtWorld_star i)
  then show ?thesis unfolding st_def .
qed

lemma rne_down:
  assumes "of_int k \<le> x" "x < of_int k + 1/2"
  shows "rne x = k"
proof -
  from assms have "\<lfloor>x\<rfloor> = k" by (intro floor_unique) simp_all
  with assms show ?thesis by (simp add: rne_def Let_def)
qed

lemma rne_up:
  assumes "of_int k + 1/2 < x" "x < of_int k + 1"
  shows "rne x = k + 1"
proof -
  from assms have "\<lfloor>x\<rfloor> = k" by (intro floor_unique) simp_all
  with assms show ?thesis by (simp add: rne_def Let_def)
qed

lemma binary64_at:
  assumes "0 < x" "2 powi e \<le> x" "x < 2 powi (e + 1)"
  shows "binary64 x = of_int (rne (x / 2 powi (e - 52))) * 2 powi (e - 52)"
proof -
  have p: "(2::real) powr (of_int k) = 2 powi k" for k
    by (rule powr_real_of_int') simp_all
  from assms have "2 powr (of_int e) \<le> x \<and> x < 2 powr (of_int (e + 1))"
    by (simp only: p)
  with assms(1) have "\<lfloor>log 2 x\<rfloor> = e" by (simp add: floor_log_eq_powr_iff)
  with assms(1) show ?thesis by (simp add: binary64_def Let_def)
qed

text \<open>The literal \<^verbatim>\<open>0.1\<close> is 0.1000000000000000055511151231257827, above one tenth.\<close>

lemma binary64_tenth: "binary64 0.1 = 7205759403792794 / 2 ^ 56"
proof -
  have r: "rne ((1/10) / 2 powi (-4 - 52)) = 7205759403792793 + 1"
    by (rule rne_up) simp_all
  have "binary64 (1/10) = of_int (rne ((1/10) / 2 powi (-4 - 52))) * 2 powi (-4 - 52)"
    by (rule binary64_at) simp_all
  then show ?thesis unfolding r by simp
qed

text \<open>\<^verbatim>\<open>8 - 0.1\<close> rounds up to 7.9000000000000003552713678800501.\<close>

lemma cap_8: "binary64 (8 - binary64 0.1) = 8894609264056730 / 2 ^ 50"
proof -
  let ?x = "8 - 7205759403792794 / 2 ^ 56 :: real"
  have r: "rne (?x / 2 powi (2 - 52)) = 8894609264056729 + 1"
    by (rule rne_up) simp_all
  have "binary64 ?x = of_int (rne (?x / 2 powi (2 - 52))) * 2 powi (2 - 52)"
    by (rule binary64_at) simp_all
  then show ?thesis unfolding r binary64_tenth by simp
qed

text \<open>The last subtraction is exact: 0.09999999999999964472863211994991.\<close>

lemma donor_8: "binary64 (8 - 8894609264056730 / 2 ^ 50) = 7205759403792768 / 2 ^ 56"
proof -
  let ?x = "8 - 8894609264056730 / 2 ^ 50 :: real"
  have r: "rne (?x / 2 powi (-4 - 52)) = 7205759403792768"
    by (rule rne_down) simp_all
  have "binary64 ?x = of_int (rne (?x / 2 powi (-4 - 52))) * 2 powi (-4 - 52)"
    by (rule binary64_at) simp_all
  then show ?thesis unfolding r by simp
qed

text \<open>
  Claim C1. The decision of the claim is the one \<open>doMassTransfer\<close> takes
  (\<open>doMassTransfer_decision\<close>), and over the real numbers the cap leaves the donor at 0.1:
  so does the step of \<open>advanceTime_to_cap\<close>. In the binary64 arithmetic of the program
  the cap does not keep the donor's mass from dropping below 0.1, which the claim and the
  comment at the cap (\<^verbatim>\<open>// never go below 0.1\<close>) say it does: for a donor of 8 solar
  masses and any amount \<open>dm\<close> at or above the cap, the cap
  \<^verbatim>\<open>donor.massCurrent - 0.1\<close> is 7.9000000000000003553 and
  \<^verbatim>\<open>donor.massCurrent -= maxTransfer\<close> leaves the donor with
  0.09999999999999964473, below the binary64 number \<^verbatim>\<open>0.1\<close> and below one tenth, where
  the real numbers give 0.1 exactly.
\<close>

theorem donorMass64_below_floor:
  assumes "8894609264056730 / 2 ^ 50 \<le> dm"
  shows "maxTransfer64 8 dm = 8894609264056730 / 2 ^ 50 \<and>
         donorMass64 8 dm = 7205759403792768 / 2 ^ 56 \<and>
         donorMass64 8 dm < binary64 0.1 \<and>
         donorMass64 8 dm < 0.1 \<and>
         massCurrent (fst (transferMass (makeStar 8) (makeStar 1) dm)) = 0.1 \<and>
         massCurrent (star1 (advanceTime 40000000 16 (applyRate 0.2 rlofState))) = 0.1"
proof -
  from assms have m: "maxTransfer64 8 dm = 8894609264056730 / 2 ^ 50"
    unfolding maxTransfer64_def cap_8 by (simp only: min_absorb2)
  have n: "\<not> (8894609264056730 / 2 ^ 50 \<le> (0::real))" by simp
  have d: "donorMass64 8 dm = 7205759403792768 / 2 ^ 56"
    unfolding donorMass64_def Let_def m by (simp only: n if_False donor_8)
  have k: "massCurrent (makeStar 8) = 8" by (simp add: makeStar_fields clamp_def)
  from assms have g: "(79 / 10 :: real) \<le> dm" by simp
  from g have "0 < min dm (massCurrent (makeStar 8) - 0.1)"
    unfolding k by simp
  from transferMass_masses(1) [OF this, of "makeStar 1"] g
  have r: "massCurrent (fst (transferMass (makeStar 8) (makeStar 1) dm)) = 0.1"
    by (simp add: k min_absorb2)
  from advanceTime_to_cap
  have t: "massCurrent (star1 (advanceTime 40000000 16 (applyRate 0.2 rlofState))) = 0.1"
    by blast
  have "7205759403792768 / 2 ^ 56 < (7205759403792794 / 2 ^ 56 :: real)"
    "7205759403792768 / 2 ^ 56 < (0.1 :: real)"
    by simp_all
  with m r t show ?thesis unfolding d binary64_tenth by blast
qed

theorem donorMass64_below_floor_witness:
  "8894609264056730 / 2 ^ 50 \<le> (8::real) \<and>
   maxTransfer64 8 8 = 8894609264056730 / 2 ^ 50 \<and>
   donorMass64 8 8 = 7205759403792768 / 2 ^ 56 \<and>
   donorMass64 8 8 < binary64 0.1 \<and>
   donorMass64 8 8 < 0.1 \<and>
   massCurrent (star1 (advanceTime 40000000 16 (applyRate 0.2 rlofState))) = 0.1"
proof -
  have h: "8894609264056730 / 2 ^ 50 \<le> (8::real)" by simp
  from h donorMass64_below_floor [OF h] show ?thesis by blast
qed

end
